theory Spec2Isabelle
  imports Complex_Main "HOL-Library.Finite_Map" "HOL-Library.Product_Lexorder"
    "HOL-Library.List_Lexorder" "HOL-Library.Char_ord" "HOL-Library.Extended_Nat"
    "HOL-Library.Option_ord"
begin

section \<open>Molecular graphs\<close>

text \<open>
  Atom keys and priorities are Python integers.  A stereo parity is tri-state:
  \<open>None\<close> (unassigned), \<open>Some True\<close>, \<open>Some False\<close>.  An atom carries
  (symbol, implicit hydrogen count, parity); a bond, keyed by the unordered pair
  of its atom keys, carries (order, parity).  The unordered pair (a two-element
  \<open>frozenset\<close>) is written as the pair with the smaller key first.  Bond orders
  are rationals, since the orders 0.1 and 0.9 mark forming and breaking bonds.
\<close>

type_synonym key = int
type_synonym parity = "bool option"
type_synonym atom = "string \<times> int \<times> parity"
type_synonym bond = "rat \<times> parity"
type_synonym bond_key = "key \<times> key"
type_synonym pri_dct = "(key, int) fmap"

record graph =
  atoms :: "(key, atom) fmap"
  bonds :: "(bond_key, bond) fmap"

subsection \<open>Attribute getters and setters of the graph core\<close>

text \<open>
  Modelled from the spec: the graph core module (\<open>automol.graph.base._core\<close>) is
  not among the sources.  Section 3 of the specification gives the data model
  (a mapping from atom key to symbol, implicit-hydrogen count and stereo parity,
  and a mapping from bond key to bond order and bond stereo parity; every
  transformation returns a new graph value) and section 6 lists the attribute
  getters and setters consumed by the canonicalization module.  A getter
  projects one attribute out of every entry; a setter replaces that one
  attribute at the keys of the dictionary it is given and nothing else.
\<close>

definition atom_keys :: "graph \<Rightarrow> key fset" where
  "atom_keys gra = fmdom (atoms gra)"

definition bond_keys :: "graph \<Rightarrow> bond_key fset" where
  "bond_keys gra = fmdom (bonds gra)"

definition atom_symbols :: "graph \<Rightarrow> (key, string) fmap" where
  "atom_symbols gra = fmmap (\<lambda>(symb, hyd, par). symb) (atoms gra)"

definition atom_implicit_hydrogens :: "graph \<Rightarrow> (key, int) fmap" where
  "atom_implicit_hydrogens gra = fmmap (\<lambda>(symb, hyd, par). hyd) (atoms gra)"

definition atom_stereo_parities :: "graph \<Rightarrow> (key, parity) fmap" where
  "atom_stereo_parities gra = fmmap (\<lambda>(symb, hyd, par). par) (atoms gra)"

definition bond_orders :: "graph \<Rightarrow> (bond_key, rat) fmap" where
  "bond_orders gra = fmmap (\<lambda>(ord, par). ord) (bonds gra)"

definition bond_stereo_parities :: "graph \<Rightarrow> (bond_key, parity) fmap" where
  "bond_stereo_parities gra = fmmap (\<lambda>(ord, par). par) (bonds gra)"

definition set_atom_stereo_parities :: "graph \<Rightarrow> (key, parity) fmap \<Rightarrow> graph" where
  "set_atom_stereo_parities gra atm_par_dct =
     gra\<lparr>atoms := fmmap_keys (\<lambda>k (symb, hyd, par).
            (symb, hyd, (case fmlookup atm_par_dct k of None \<Rightarrow> par | Some p \<Rightarrow> p)))
          (atoms gra)\<rparr>"

definition set_bond_stereo_parities :: "graph \<Rightarrow> (bond_key, parity) fmap \<Rightarrow> graph" where
  "set_bond_stereo_parities gra bnd_par_dct =
     gra\<lparr>bonds := fmmap_keys (\<lambda>k (ord, par).
            (ord, (case fmlookup bnd_par_dct k of None \<Rightarrow> par | Some p \<Rightarrow> p)))
          (bonds gra)\<rparr>"

subsection \<open>Dictionary helpers\<close>

text \<open>\<open>dict_.transform_values\<close>: apply a function to every value of a dictionary.\<close>

definition transform_values :: "('k, 'a) fmap \<Rightarrow> ('a \<Rightarrow> 'b) \<Rightarrow> ('k, 'b) fmap" where
  "transform_values dct f = fmmap f dct"

text \<open>\<open>dict_.by_key\<close>: the dictionary over the given keys, with a fill value for
  the keys that are missing.\<close>

definition by_key :: "('k::linorder, 'a) fmap \<Rightarrow> 'k fset \<Rightarrow> 'a \<Rightarrow> ('k, 'a) fmap" where
  "by_key dct keys fill_val =
     fmap_of_list (map (\<lambda>k. (k, case fmlookup dct k of None \<Rightarrow> fill_val | Some v \<Rightarrow> v))
       (sorted_list_of_fset keys))"

text \<open>\<open>dict_.values_by_key\<close>: the values at the given keys, in their order, with
  a fill value for the keys that are missing.\<close>

definition values_by_key :: "('k, 'a) fmap \<Rightarrow> 'k list \<Rightarrow> 'a \<Rightarrow> 'a list" where
  "values_by_key dct keys fill_val =
     map (\<lambda>k. case fmlookup dct k of None \<Rightarrow> fill_val | Some v \<Rightarrow> v) keys"

text \<open>\<open>dict_.filter_by_value\<close>: keep the entries whose value satisfies the test.\<close>

definition filter_by_value :: "('k, 'a) fmap \<Rightarrow> ('a \<Rightarrow> bool) \<Rightarrow> ('k, 'a) fmap" where
  "filter_by_value dct func =
     fmfilter (\<lambda>k. case fmlookup dct k of None \<Rightarrow> False | Some v \<Rightarrow> func v) dct"

text \<open>The items of a dictionary.  Python yields them in insertion order; every
  use below sorts them at once, so they are listed by ascending key.\<close>

definition dict_items :: "('k::linorder, 'a) fmap \<Rightarrow> ('k \<times> 'a) list" where
  "dict_items dct = map (\<lambda>k. (k, the (fmlookup dct k))) (sorted_list_of_fset (fmdom dct))"

subsection \<open>Errors\<close>

datatype error =
    PreconditionViolation string
  | AtomParityMismatch "(key, parity) fmap" "(key, parity) fmap"
  | BondParityMismatch "(bond_key, parity) fmap" "(bond_key, parity) fmap"
  | KeyError
  | TypeError
  | IndexError
  | AssertionError string

text \<open>\<open>dct[key]\<close>, which raises \<open>KeyError\<close> at a missing key.\<close>

definition getitem :: "('k, 'a) fmap \<Rightarrow> 'k \<Rightarrow> error + 'a" where
  "getitem dct k = (case fmlookup dct k of None \<Rightarrow> Inl KeyError | Some v \<Rightarrow> Inr v)"

text \<open>Evaluating a raising function over a list stops at the first error.\<close>

fun map_err :: "('a \<Rightarrow> error + 'b) \<Rightarrow> 'a list \<Rightarrow> error + 'b list" where
  "map_err f [] = Inr []"
| "map_err f (x # xs) =
     (case f x of Inl e \<Rightarrow> Inl e
      | Inr y \<Rightarrow> (case map_err f xs of Inl e \<Rightarrow> Inl e | Inr ys \<Rightarrow> Inr (y # ys)))"

subsection \<open>Sorting and grouping\<close>

text \<open>\<open>itertools.groupby\<close>: maximal runs of consecutive elements with equal key.\<close>

function groupby :: "('a \<Rightarrow> 'b) \<Rightarrow> 'a list \<Rightarrow> ('b \<times> 'a list) list" where
  "groupby f [] = []"
| "groupby f (x # xs) =
     (f x, x # takeWhile (\<lambda>y. f y = f x) xs) # groupby f (dropWhile (\<lambda>y. f y = f x) xs)"
  by pat_completeness auto
termination
  by (relation "measure (\<lambda>(f, xs). length xs)") (auto simp: length_dropWhile_le less_Suc_eq_le)

text \<open>\<open>sorted(xs, key=f)\<close> where \<open>f\<close> may raise: Python evaluates the key of every
  element first, then sorts stably by the keys.  The result pairs each element
  with its key.\<close>

definition sorted_by :: "('a \<Rightarrow> error + 'v::linorder) \<Rightarrow> 'a list \<Rightarrow> error + ('v \<times> 'a) list" where
  "sorted_by f xs =
     (case map_err f xs of Inl e \<Rightarrow> Inl e | Inr vs \<Rightarrow> Inr (sort_key fst (zip vs xs)))"

section \<open>The graph core as a collaborator\<close>

text \<open>
  The connectivity queries, the graph-editing primitives and the chemical
  perception functions that the canonicalization module imports from the graph
  core (\<open>_core\<close>, \<open>_algo\<close>, \<open>_kekule\<close>), from \<open>phydat.ptab\<close> and from
  \<open>automol.util\<close> are not among the sources.  They are taken as parameters:
  a value of the record \<open>core\<close> supplies one function per imported name, and
  every function of the module below receives it as its first argument.
  An optional argument of the original that a call leaves out is passed as
  \<open>None\<close>.
\<close>

record core =
  is_connected :: "graph \<Rightarrow> bool"
  connected_components :: "graph \<Rightarrow> graph list"
  without_dummy_atoms :: "graph \<Rightarrow> graph"
  implicit :: "graph \<Rightarrow> graph"
  explicit :: "graph \<Rightarrow> graph"
  without_pi_bonds :: "graph \<Rightarrow> graph"
  without_bonds_by_orders :: "graph \<Rightarrow> rat list \<Rightarrow> graph"
  atoms_neighbor_atom_keys :: "graph \<Rightarrow> bool option \<Rightarrow> (key, key fset) fmap"
  atoms_bond_keys :: "graph \<Rightarrow> bool option \<Rightarrow> (key, bond_key list) fmap"
  to_symbol :: "string \<Rightarrow> string"
  mass_numbers :: "graph \<Rightarrow> (key, int) fmap"
  atom_keys_symb :: "graph \<Rightarrow> string \<Rightarrow> key fset"
  backbone_keys :: "graph \<Rightarrow> bool option \<Rightarrow> key fset"
  backbone_hydrogen_keys :: "graph \<Rightarrow> key fset"
  nonbackbone_hydrogen_keys :: "graph \<Rightarrow> key fset"
  atom_nonbackbone_hydrogen_keys :: "graph \<Rightarrow> (key, key list) fmap"
  tetrahedral_atom_keys :: "graph \<Rightarrow> key fset"
  rigid_planar_bond_keys :: "graph \<Rightarrow> bond_key fset"
  rings_bond_keys :: "graph \<Rightarrow> bool option \<Rightarrow> bond_key fset list"
  atom_stereo_sorted_neighbor_keys :: "graph \<Rightarrow> key \<Rightarrow> pri_dct \<Rightarrow> key list"
  bond_stereo_sorted_neighbor_keys :: "graph \<Rightarrow> key \<Rightarrow> key \<Rightarrow> pri_dct \<Rightarrow> key list \<times> key list"
  is_ts_graph :: "graph \<Rightarrow> bool"
  ts_reverse :: "graph \<Rightarrow> graph"
  ts_forming_bond_keys :: "graph \<Rightarrow> bond_key fset"
  ts_breaking_bond_keys :: "graph \<Rightarrow> bond_key fset"
  is_even_permutation :: "key list \<Rightarrow> key list \<Rightarrow> bool"

section \<open>The priority refiner\<close>

subsection \<open>Priority classes\<close>

text \<open>\<open>class_dict_from_priority_dict\<close>: sort the keys, sort them (stably) by priority,
  and group equal priorities; each class is a tuple of keys in ascending order.\<close>

definition class_dict_from_priority_dict :: "pri_dct \<Rightarrow> (int, key list) fmap" where
  "class_dict_from_priority_dict pri_dct =
     (let keys = sorted_list_of_fset (fmdom pri_dct);
          clas = sort_key (\<lambda>k. the (fmlookup pri_dct k)) keys
      in fmap_of_list (groupby (\<lambda>k. the (fmlookup pri_dct k)) clas))"

text \<open>\<open>sorted(dict_.filter_by_value(cla_dct, lambda v: len(v) > 1).items(), reverse=True)\<close>:
  the classes with more than one member, by descending class index.\<close>

definition classes_up_for_reevaluation :: "(int, key list) fmap \<Rightarrow> (int \<times> key list) list" where
  "classes_up_for_reevaluation cla_dct =
     (let new_cla_dct = filter_by_value cla_dct (\<lambda>v. length v > 1)
      in rev (sort_key (\<lambda>x. x) (dict_items new_cla_dct)))"

subsection \<open>The sort value of an atom\<close>

type_synonym srt_val = "string \<times> int \<times> int \<times> int \<times> enat \<times> enat list \<times> rat list \<times> int list"

text \<open>\<open>_replace_none\<close>: an unassigned parity becomes \<open>numpy.inf\<close>; Python compares
  \<open>False\<close> and \<open>True\<close> with it as the numbers 0 and 1.\<close>

definition replace_none :: "parity \<Rightarrow> enat" where
  "replace_none val = (case val of None \<Rightarrow> \<infinity> | Some b \<Rightarrow> (if b then 1 else 0))"

text \<open>\<open>_replace_reacting_bond_order\<close>: asserts that the order has one decimal at most;
  the reacting orders 0.1 and 0.9 become \<open>int(val * 100)\<close>.  An order that is
  missing (the fill value \<open>None\<close> of \<open>values_by_key\<close>) makes \<open>round\<close> raise.\<close>

definition replace_reacting_bond_order :: "rat option \<Rightarrow> error + rat" where
  "replace_reacting_bond_order v =
     (case v of None \<Rightarrow> Inl TypeError
      | Some val \<Rightarrow>
          if val * 10 \<noteq> of_int \<lfloor>val * 10\<rfloor> then Inl (AssertionError [])
          else Inr (if val = 1 / 10 \<or> val = 9 / 10 then of_int \<lfloor>val * 100\<rfloor> else val))"

text \<open>\<open>_normalize_symbol\<close>: carbon sorts first, hydrogen last.\<close>

definition normalize_symbol :: "core \<Rightarrow> string \<Rightarrow> string" where
  "normalize_symbol c symb =
     (let symb = to_symbol c symb;
          symb = (if symb = ''C'' then [] else symb);
          symb = (if symb = ''H'' then ''zz'' else symb)
      in symb)"

record srt_tables =
  symb_dct :: "(key, string) fmap"
  bnds_dct_no_rxbs :: "(key, bond_key list) fmap"
  hnum_dct :: "(key, int) fmap"
  mnum_dct :: "(key, int) fmap"
  apar_dct :: "(key, enat) fmap"
  bpars_dct :: "(key, enat list) fmap"
  bords_dct :: "(key, rat list) fmap"
  nkeys_dct :: "(key, key fset) fmap"

text \<open>Applying a raising function to every value of a dictionary.\<close>

definition transform_values_err ::
  "('k::linorder, 'a) fmap \<Rightarrow> ('a \<Rightarrow> error + 'b) \<Rightarrow> error + ('k, 'b) fmap" where
  "transform_values_err dct f =
     (case map_err (\<lambda>(k, v). case f v of Inl e \<Rightarrow> Inl e | Inr w \<Rightarrow> Inr (k, w)) (dict_items dct) of
        Inl e \<Rightarrow> Inl e
      | Inr kws \<Rightarrow> Inr (fmap_of_list kws))"

text \<open>\<open>sort_evaluator_atom_invariants_\<close>, the part that is computed once per graph:
  the tables the sort value reads.\<close>

definition sort_evaluator_atom_invariants :: "core \<Rightarrow> graph \<Rightarrow> error + srt_tables" where
  "sort_evaluator_atom_invariants c gra0 =
     (let gra = without_pi_bonds c (implicit c gra0);
          gra_no_rxbs = without_bonds_by_orders c gra [1 / 10, 9 / 10];
          bnds_no_rxbs = atoms_bond_keys c gra_no_rxbs None;
          bpar_dct = bond_stereo_parities gra_no_rxbs;
          sortable_bond_stereo_values = (\<lambda>bnd_keys.
             sort_key (\<lambda>x. x) (map replace_none (values_by_key bpar_dct bnd_keys None)));
          bord_dct = bond_orders gra;
          sortable_bond_orders = (\<lambda>bnd_keys.
             case map_err replace_reacting_bond_order
                    (values_by_key (fmmap Some bord_dct) bnd_keys None) of
               Inl e \<Rightarrow> Inl e
             | Inr bords \<Rightarrow> Inr (sort_key (\<lambda>x. x) bords))
      in case transform_values_err (atoms_bond_keys c gra (Some True)) sortable_bond_orders of
           Inl e \<Rightarrow> Inl e
         | Inr bords \<Rightarrow> Inr \<lparr>
             symb_dct = transform_values (atom_symbols gra_no_rxbs) (normalize_symbol c),
             bnds_dct_no_rxbs = bnds_no_rxbs,
             hnum_dct = atom_implicit_hydrogens gra_no_rxbs,
             mnum_dct = mass_numbers c gra_no_rxbs,
             apar_dct = transform_values (atom_stereo_parities gra_no_rxbs) replace_none,
             bpars_dct = transform_values bnds_no_rxbs sortable_bond_stereo_values,
             bords_dct = bords,
             nkeys_dct = atoms_neighbor_atom_keys c gra (Some True)\<rparr>)"

text \<open>\<open>_value\<close>: the sort value of one atom under the current priorities.\<close>

definition sort_value :: "srt_tables \<Rightarrow> pri_dct \<Rightarrow> key \<Rightarrow> error + srt_val" where
  "sort_value t pri_dct k =
     (case getitem (symb_dct t) k of Inl e \<Rightarrow> Inl e | Inr symb \<Rightarrow>
      case getitem (bnds_dct_no_rxbs t) k of Inl e \<Rightarrow> Inl e | Inr bnds \<Rightarrow>
      case getitem (hnum_dct t) k of Inl e \<Rightarrow> Inl e | Inr hnum \<Rightarrow>
      case getitem (mnum_dct t) k of Inl e \<Rightarrow> Inl e | Inr mnum \<Rightarrow>
      case getitem (apar_dct t) k of Inl e \<Rightarrow> Inl e | Inr apar \<Rightarrow>
      case getitem (bpars_dct t) k of Inl e \<Rightarrow> Inl e | Inr bpars \<Rightarrow>
      case getitem (bords_dct t) k of Inl e \<Rightarrow> Inl e | Inr bords \<Rightarrow>
      case getitem (nkeys_dct t) k of Inl e \<Rightarrow> Inl e | Inr nkeys \<Rightarrow>
      case map_err (getitem pri_dct) (sorted_list_of_fset nkeys) of Inl e \<Rightarrow> Inl e | Inr nidxs \<Rightarrow>
        Inr (symb, int (length bnds), hnum, mnum, apar, bpars, bords, sort_key (\<lambda>x. x) nidxs))"

subsection \<open>Refinement\<close>

text \<open>One pass of the inner \<open>for part in parts\<close> loop of \<open>refine_priorities\<close>: every
  part becomes the class \<open>new_idx\<close>, its members get that priority, and the index
  advances by the size of the part.\<close>

fun assign_parts ::
  "int \<Rightarrow> key list list \<Rightarrow> pri_dct \<Rightarrow> (int, key list) fmap \<Rightarrow> int list \<Rightarrow>
   pri_dct \<times> (int, key list) fmap \<times> int list" where
  "assign_parts new_idx [] pri_dct cla_dct new_idxs = (pri_dct, cla_dct, new_idxs)"
| "assign_parts new_idx (part # parts) pri_dct cla_dct new_idxs =
     assign_parts (new_idx + int (length part)) parts
       (fold (\<lambda>k. fmupd k new_idx) part pri_dct)
       (fmupd new_idx part cla_dct)
       (new_idxs @ [new_idx])"

text \<open>The loop \<open>for new_idx in new_idxs\<close>: collect the priorities of the neighbours of
  the members of the new classes, leaving out the classes that are queued.
  \<open>frozenset.union\<close> of no sets raises.\<close>

fun neighbor_idxs ::
  "(key, key fset) fmap \<Rightarrow> pri_dct \<Rightarrow> (int, key list) fmap \<Rightarrow> int fset \<Rightarrow> int list \<Rightarrow>
   int fset \<Rightarrow> error + int fset" where
  "neighbor_idxs ngb_keys_dct pri_dct cla_dct queued [] ngb_idxs = Inr ngb_idxs"
| "neighbor_idxs ngb_keys_dct pri_dct cla_dct queued (new_idx # new_idxs) ngb_idxs =
     (case getitem cla_dct new_idx of Inl e \<Rightarrow> Inl e | Inr new_cla \<Rightarrow>
      case map_err (getitem ngb_keys_dct) new_cla of Inl e \<Rightarrow> Inl e | Inr nss \<Rightarrow>
      if nss = [] then Inl TypeError else
      case map_err (getitem pri_dct) (sorted_list_of_fset (fold (|\<union>|) nss {||})) of
        Inl e \<Rightarrow> Inl e
      | Inr ps \<Rightarrow>
          neighbor_idxs ngb_keys_dct pri_dct cla_dct queued new_idxs
            ((ngb_idxs |\<union>| fset_of_list ps) |-| queued))"

text \<open>The loop \<open>for ngb_idx in sorted(ngb_idxs)\<close>: a neighbouring class with more than
  one member goes to the front of the queue.\<close>

fun enqueue ::
  "(int, key list) fmap \<Rightarrow> int list \<Rightarrow> (int \<times> key list) list \<Rightarrow> error + (int \<times> key list) list" where
  "enqueue cla_dct [] new_clas = Inr new_clas"
| "enqueue cla_dct (ngb_idx # ngb_idxs) new_clas =
     (case getitem cla_dct ngb_idx of Inl e \<Rightarrow> Inl e
      | Inr ngb_cla \<Rightarrow>
          enqueue cla_dct ngb_idxs
            (if length ngb_cla > 1 then (ngb_idx, ngb_cla) # new_clas else new_clas))"

type_synonym refine_state = "pri_dct \<times> (int, key list) fmap \<times> (int \<times> key list) list"

text \<open>The body of \<open>while new_clas\<close> for a queue with first entry \<open>(idx, cla)\<close>.\<close>

definition refine_step ::
  "srt_tables \<Rightarrow> (key, key fset) fmap \<Rightarrow> int \<Rightarrow> key list \<Rightarrow> refine_state \<Rightarrow> error + refine_state" where
  "refine_step t ngb_keys_dct idx cla st =
     (case st of (pri_dct, cla_dct, new_clas) \<Rightarrow>
      case sorted_by (sort_value t pri_dct) cla of Inl e \<Rightarrow> Inl e | Inr srt \<Rightarrow>
      let parts = map (\<lambda>(v, vks). map snd vks) (groupby fst srt) in
      if length parts > 1 then
        (case assign_parts idx parts pri_dct cla_dct [] of (pri_dct', cla_dct', new_idxs) \<Rightarrow>
         case neighbor_idxs ngb_keys_dct pri_dct' cla_dct' (fset_of_list (map fst new_clas))
                new_idxs {||} of
           Inl e \<Rightarrow> Inl e
         | Inr ngb_idxs \<Rightarrow>
             (case enqueue cla_dct' (sorted_list_of_fset ngb_idxs) new_clas of
                Inl e \<Rightarrow> Inl e
              | Inr new_clas' \<Rightarrow> Inr (pri_dct', cla_dct', new_clas')))
      else Inr (pri_dct, cla_dct, new_clas))"

text \<open>The loop \<open>while new_clas\<close>.  It need not end for every state, so not returning
  is the value \<open>None\<close>.\<close>

partial_function (option) refine_loop ::
  "srt_tables \<Rightarrow> (key, key fset) fmap \<Rightarrow> refine_state \<Rightarrow> (error + pri_dct) option" where
  "refine_loop t ngb_keys_dct st =
     (case st of (pri_dct, cla_dct, new_clas) \<Rightarrow>
      case new_clas of
        [] \<Rightarrow> Some (Inr pri_dct)
      | (idx, cla) # rest \<Rightarrow>
          (case refine_step t ngb_keys_dct idx cla (pri_dct, cla_dct, rest) of
             Inl e \<Rightarrow> Some (Inl e)
           | Inr st' \<Rightarrow> refine_loop t ngb_keys_dct st'))"

declare refine_loop.simps [code]

text \<open>\<open>refine_priorities\<close>.  The two assertions come first.\<close>

definition refine_priorities :: "core \<Rightarrow> graph \<Rightarrow> pri_dct option \<Rightarrow> (error + pri_dct) option" where
  "refine_priorities c gra0 pri_dct0 =
     (if \<not> is_connected c gra0 then
        Some (Inl (PreconditionViolation ''Not for disconnected graphs.''))
      else if gra0 \<noteq> without_dummy_atoms c gra0 then
        Some (Inl (PreconditionViolation ''Remove dummy atoms''))
      else
        let gra = implicit c gra0;
            pri_dct = (case pri_dct0 of None \<Rightarrow> fmempty | Some p \<Rightarrow> p);
            pri_dct = by_key pri_dct (atom_keys gra) 0
        in case sort_evaluator_atom_invariants c gra of
             Inl e \<Rightarrow> Some (Inl e)
           | Inr t \<Rightarrow>
               let ngb_keys_dct = atoms_neighbor_atom_keys c gra None;
                   cla_dct = class_dict_from_priority_dict pri_dct;
                   new_clas = classes_up_for_reevaluation cla_dct
               in refine_loop t ngb_keys_dct (pri_dct, cla_dct, new_clas))"

section \<open>The tie breaker\<close>

text \<open>The loop of \<open>break_priority_ties\<close>: the first queued class loses its last
  member to the index \<open>idx + len(cla) - 1\<close>, the priorities are refined, and the
  queue is computed afresh from the refined priorities.\<close>

partial_function (option) break_ties_loop ::
  "core \<Rightarrow> graph \<Rightarrow> pri_dct \<Rightarrow> (error + pri_dct) option" where
  "break_ties_loop c gra pri_dct =
     (case classes_up_for_reevaluation (class_dict_from_priority_dict pri_dct) of
        [] \<Rightarrow> Some (Inr pri_dct)
      | (idx, cla) # rest \<Rightarrow>
          Option.bind
            (refine_priorities c gra (Some (fmupd (last cla) (idx + int (length cla) - 1) pri_dct)))
            (\<lambda>r. case r of Inl e \<Rightarrow> Some (Inl e) | Inr pri_dct' \<Rightarrow> break_ties_loop c gra pri_dct'))"

declare break_ties_loop.simps [code]

definition break_priority_ties :: "core \<Rightarrow> graph \<Rightarrow> pri_dct \<Rightarrow> (error + pri_dct) option" where
  "break_priority_ties c gra pri_dct =
     (if \<not> is_connected c gra then
        Some (Inl (PreconditionViolation ''Not for disconnected graphs.''))
      else if gra \<noteq> without_dummy_atoms c gra then
        Some (Inl (PreconditionViolation ''Remove dummy atoms''))
      else break_ties_loop c gra pri_dct)"

section \<open>Reflection of local stereo\<close>

text \<open>
  \<open>reflect_local_stereo\<close>: read the atom parities, replace every assigned one
  by its negation (\<open>lambda x: x if x is None else not x\<close>), write them back.
\<close>

definition reflect_local_stereo :: "graph \<Rightarrow> graph" where
  "reflect_local_stereo gra =
     (let atm_par_dct = atom_stereo_parities gra;
          atm_par_dct = transform_values atm_par_dct
            (\<lambda>x. case x of None \<Rightarrow> None | Some b \<Rightarrow> Some (\<not> b))
      in set_atom_stereo_parities gra atm_par_dct)"

section \<open>Stereo attributes\<close>

text \<open>
  A stereocentre key is an atom key or a bond key.  The original keeps atom
  and bond parities in one dictionary and tells the two kinds of key apart by
  their type; here such a dictionary is a pair of dictionaries, and a set of
  stereocentre keys a pair of sets.
\<close>

datatype ste_key = AtomKey key | BondKey bond_key

type_synonym ste_dct = "(key, parity) fmap \<times> (bond_key, parity) fmap"
type_synonym ste_keys = "key fset \<times> bond_key fset"

text \<open>
  Modelled from the spec: further accessors of the absent graph core, after
  the data model of section 3: the keys that carry an assigned parity, the
  tests for their presence, the removal of all parities, and the setter for a
  mixed dictionary of atom and bond parities.
\<close>

definition atom_stereo_keys :: "graph \<Rightarrow> key fset" where
  "atom_stereo_keys gra =
     fmdom (fmfilter (\<lambda>k. fmlookup (atom_stereo_parities gra) k \<in> {Some (Some True), Some (Some False)})
       (atoms gra))"

definition bond_stereo_keys :: "graph \<Rightarrow> bond_key fset" where
  "bond_stereo_keys gra =
     fmdom (fmfilter (\<lambda>k. fmlookup (bond_stereo_parities gra) k \<in> {Some (Some True), Some (Some False)})
       (bonds gra))"

definition has_atom_stereo :: "graph \<Rightarrow> bool" where
  "has_atom_stereo gra = (atom_stereo_keys gra \<noteq> {||})"

definition has_stereo :: "graph \<Rightarrow> bool" where
  "has_stereo gra = (atom_stereo_keys gra \<noteq> {||} \<or> bond_stereo_keys gra \<noteq> {||})"

definition stereo_parities :: "graph \<Rightarrow> ste_dct" where
  "stereo_parities gra = (atom_stereo_parities gra, bond_stereo_parities gra)"

definition set_stereo_parities :: "graph \<Rightarrow> ste_dct \<Rightarrow> graph" where
  "set_stereo_parities gra par_dct =
     set_bond_stereo_parities (set_atom_stereo_parities gra (fst par_dct)) (snd par_dct)"

definition without_stereo :: "graph \<Rightarrow> graph" where
  "without_stereo gra =
     gra\<lparr>atoms := fmmap (\<lambda>(symb, hyd, par). (symb, hyd, None)) (atoms gra),
         bonds := fmmap (\<lambda>(ord, par). (ord, None)) (bonds gra)\<rparr>"

text \<open>
  Modelled from the spec: \<open>relabel\<close> of the absent graph core, the
  graph-editing primitive "relabel by key mapping" of section 6.  Every atom
  key in the mapping is replaced by its image, in the atom dictionary and in the
  bond keys; a key that the mapping does not mention stays.  A mapping that
  mentions a key the graph does not have is rejected.
\<close>

definition relabel :: "graph \<Rightarrow> (key, key) fmap \<Rightarrow> error + graph" where
  "relabel gra atm_key_dct =
     (if \<not> fmdom atm_key_dct |\<subseteq>| atom_keys gra then Inl (AssertionError ''relabel'')
      else
        let f = (\<lambda>k. case fmlookup atm_key_dct k of None \<Rightarrow> k | Some k' \<Rightarrow> k')
        in Inr (gra\<lparr>
             atoms := fmap_of_list (map (\<lambda>(k, a). (f k, a)) (dict_items (atoms gra))),
             bonds := fmap_of_list
               (map (\<lambda>((k1, k2), b). ((min (f k1) (f k2), max (f k1) (f k2)), b))
                  (dict_items (bonds gra)))\<rparr>))"

section \<open>Hydrogen priorities\<close>

text \<open>\<open>sorted_classes_from_priority_dict\<close>: the priority classes by ascending priority.\<close>

definition sorted_classes_from_priority_dict :: "pri_dct \<Rightarrow> key list list" where
  "sorted_classes_from_priority_dict pri_dct =
     (let keys = sorted_list_of_fset (fmdom pri_dct);
          clas = sort_key (\<lambda>k. the (fmlookup pri_dct k)) keys
      in map snd (groupby (\<lambda>k. the (fmlookup pri_dct k)) clas))"

text \<open>\<open>dict_.by_key\<close> without a fill value stores \<open>None\<close> at a missing key.
  Where the values are priorities, which are compared and negated afterwards,
  the model raises at that point.\<close>

definition by_key_int :: "(key, int) fmap \<Rightarrow> key fset \<Rightarrow> error + (key, int) fmap" where
  "by_key_int dct keys =
     (if keys |\<subseteq>| fmdom dct then Inr (fmrestrict_fset keys dct) else Inl TypeError)"

fun assign_hyd_parts :: "int \<Rightarrow> key list list \<Rightarrow> (key, int) fmap \<Rightarrow> (key, int) fmap" where
  "assign_hyd_parts next_idx [] hyd_pri_dct = hyd_pri_dct"
| "assign_hyd_parts next_idx (hyd_part # hyd_parts) hyd_pri_dct =
     assign_hyd_parts (next_idx + int (length hyd_part)) hyd_parts
       (fold (\<lambda>k. fmupd k next_idx) hyd_part hyd_pri_dct)"

text \<open>\<open>assign_hydrogen_priorities\<close>.  A set is iterated in ascending key order.\<close>

definition assign_hydrogen_priorities ::
  "core \<Rightarrow> graph \<Rightarrow> pri_dct \<Rightarrow> bool \<Rightarrow> bool \<Rightarrow> error + pri_dct" where
  "assign_hydrogen_priorities c gra0 pri_dct0 break_ties neg =
     (let hyd_keys_pool = nonbackbone_hydrogen_keys c gra0 in
      case
        (if hyd_keys_pool \<noteq> {||} then
           (case sorted_by (getitem pri_dct0) (sorted_list_of_fset (backbone_keys c gra0 None)) of
              Inl e \<Rightarrow> Inl e
            | Inr srt \<Rightarrow>
                let bbn_keys = map snd srt;
                    gra = explicit c gra0;
                    hyd_keys_dct = atom_nonbackbone_hydrogen_keys c gra
                in if bbn_keys = [] then Inl (AssertionError ''max of empty'')
                   else
                     let next_idx = Max (set (map fst srt)) + 1 in
                     (case
                        (if \<not> break_ties then
                           (case map_err (map_err (getitem hyd_keys_dct))
                                   (sorted_classes_from_priority_dict pri_dct0) of
                              Inl e \<Rightarrow> Inl e
                            | Inr hss \<Rightarrow> Inr (assign_hyd_parts next_idx (map concat hss) fmempty))
                         else
                           (case map_err (getitem hyd_keys_dct) bbn_keys of
                              Inl e \<Rightarrow> Inl e
                            | Inr hs \<Rightarrow>
                                Inr (fold (\<lambda>(i, k). fmupd k (int i + next_idx))
                                       (List.enumerate 0 (concat hs)) fmempty))) of
                        Inl e \<Rightarrow> Inl e
                      | Inr hyd_pri_dct \<Rightarrow>
                          (case by_key_int hyd_pri_dct hyd_keys_pool of
                             Inl e \<Rightarrow> Inl e
                           | Inr hyd_pri_dct' \<Rightarrow> Inr (gra, pri_dct0 ++\<^sub>f hyd_pri_dct'))))
         else Inr (gra0, pri_dct0)) of
        Inl e \<Rightarrow> Inl e
      | Inr (gra, pri_dct) \<Rightarrow>
          if neg then
            let all_hyd_keys = atom_keys_symb c gra ''H''
            in Inr (fmmap_keys (\<lambda>k p. if k |\<in>| all_hyd_keys then - \<bar>p\<bar> else p) pri_dct)
          else Inr pri_dct)"

text \<open>\<open>local_priority_dict\<close>: a backbone atom has its key as priority, a backbone
  hydrogen the negated key, any other hydrogen minus infinity (here \<open>None\<close>, the
  least element of the order on \<open>int option\<close>).\<close>

definition local_priority_dict :: "core \<Rightarrow> graph \<Rightarrow> (key, int option) fmap" where
  "local_priority_dict c gra =
     fmap_of_list (map (\<lambda>k. (k, Some k)) (sorted_list_of_fset (backbone_keys c gra (Some False))))
     ++\<^sub>f fmap_of_list (map (\<lambda>k. (k, Some (- \<bar>k\<bar>))) (sorted_list_of_fset (backbone_hydrogen_keys c gra)))
     ++\<^sub>f fmap_of_list (map (\<lambda>k. (k, None)) (sorted_list_of_fset (nonbackbone_hydrogen_keys c gra)))"

section \<open>Parity evaluators\<close>

text \<open>A parity evaluator takes the graph and the priorities and returns a
  function from stereocentre keys to parities; both stages may raise.\<close>

type_synonym par_eval = "core \<Rightarrow> graph \<Rightarrow> pri_dct \<Rightarrow> error + (ste_key \<Rightarrow> error + parity)"

text \<open>\<open>parity_evaluator_read_canonical_\<close>: the parity stored in the graph.\<close>

definition parity_evaluator_read_canonical :: par_eval where
  "parity_evaluator_read_canonical c gra pri_dct =
     (let atm_par_dct = atom_stereo_parities gra;
          bnd_par_dct = bond_stereo_parities gra
      in Inr (\<lambda>key. case key of
                AtomKey k \<Rightarrow> getitem atm_par_dct k
              | BondKey b \<Rightarrow> getitem bnd_par_dct b))"

text \<open>Python's \<open>not par\<close> on a tri-state parity: \<open>not None\<close> is \<open>True\<close>.\<close>

definition py_not :: "parity \<Rightarrow> parity" where
  "py_not par = Some (case par of None \<Rightarrow> True | Some b \<Rightarrow> \<not> b)"

text \<open>\<open>max(xs, key=f)\<close> on a non-empty list: the first element whose key is greatest.\<close>

definition max_by :: "('v::linorder \<times> 'a) \<Rightarrow> ('v \<times> 'a) list \<Rightarrow> 'a" where
  "max_by x xs = snd (fold (\<lambda>y m. if fst m < fst y then y else m) xs x)"

text \<open>\<open>parity_evaluator_flip_local_\<close>.\<close>

definition parity_evaluator_flip_local :: par_eval where
  "parity_evaluator_flip_local c gra0 pri_dct0 =
     (let gra = explicit c gra0;
          atm_par_dct = atom_stereo_parities gra;
          bnd_par_dct = bond_stereo_parities gra;
          loc_pri_dct = local_priority_dict c gra
      in case assign_hydrogen_priorities c gra pri_dct0 False True of
           Inl e \<Rightarrow> Inl e
         | Inr pri_dct \<Rightarrow> Inr (\<lambda>key. case key of
             AtomKey k \<Rightarrow>
               (case getitem atm_par_dct k of Inl e \<Rightarrow> Inl e | Inr par \<Rightarrow>
                let can_srt = atom_stereo_sorted_neighbor_keys c gra k pri_dct in
                case sorted_by (getitem loc_pri_dct) can_srt of Inl e \<Rightarrow> Inl e | Inr srt \<Rightarrow>
                let loc_srt = map snd srt in
                Inr (if is_even_permutation c loc_srt can_srt then par else py_not par))
           | BondKey b \<Rightarrow>
               (case getitem bnd_par_dct b of Inl e \<Rightarrow> Inl e | Inr par \<Rightarrow>
                case bond_stereo_sorted_neighbor_keys c gra (fst b) (snd b) pri_dct of
                  (nkey1s, nkey2s) \<Rightarrow>
                if nkey1s = [] \<or> nkey2s = [] then Inl IndexError else
                let can_nmax1 = last nkey1s;
                    can_nmax2 = last nkey2s in
                case map_err (getitem loc_pri_dct) nkey1s of Inl e \<Rightarrow> Inl e | Inr v1s \<Rightarrow>
                case map_err (getitem loc_pri_dct) nkey2s of Inl e \<Rightarrow> Inl e | Inr v2s \<Rightarrow>
                let loc_nmax1 = max_by (hd (zip v1s nkey1s)) (tl (zip v1s nkey1s));
                    loc_nmax2 = max_by (hd (zip v2s nkey2s)) (tl (zip v2s nkey2s)) in
                Inr (if \<not> ((loc_nmax1 = can_nmax1) \<noteq> (loc_nmax2 = can_nmax2)) then par
                     else py_not par))))"

section \<open>The stereogenicity detector\<close>

text \<open>Filtering a list by a test that may raise.\<close>

definition filter_err :: "('a \<Rightarrow> error + bool) \<Rightarrow> 'a list \<Rightarrow> error + 'a list" where
  "filter_err f xs =
     (case map_err f xs of Inl e \<Rightarrow> Inl e
      | Inr bs \<Rightarrow> Inr (map snd (filter fst (zip bs xs))))"

text \<open>\<open>stereogenic_atom_keys_from_priorities\<close>.\<close>

definition stereogenic_atom_keys_from_priorities ::
  "core \<Rightarrow> graph \<Rightarrow> pri_dct \<Rightarrow> bool \<Rightarrow> error + key fset" where
  "stereogenic_atom_keys_from_priorities c gra0 pri_dct0 assigned =
     (let gra = without_pi_bonds c gra0;
          gra = explicit c gra
      in case assign_hydrogen_priorities c gra pri_dct0 False False of
           Inl e \<Rightarrow> Inl e
         | Inr pri_dct \<Rightarrow>
             let atm_keys = tetrahedral_atom_keys c gra;
                 atm_keys = (if \<not> assigned then atm_keys |-| atom_stereo_keys gra else atm_keys);
                 is_stereogenic = (\<lambda>key.
                   let nkeys = atom_stereo_sorted_neighbor_keys c gra key pri_dct in
                   if \<not> length nkeys \<le> 4 then Inl (AssertionError ''Too many neighbors!'')
                   else case map_err (getitem pri_dct) nkeys of
                          Inl e \<Rightarrow> Inl e
                        | Inr pris \<Rightarrow> Inr (length (remdups pris) = length pris))
             in case filter_err is_stereogenic (sorted_list_of_fset atm_keys) of
                  Inl e \<Rightarrow> Inl e
                | Inr ks \<Rightarrow> Inr (fset_of_list ks))"

text \<open>The test \<open>_is_stereogenic\<close> of \<open>stereogenic_bond_keys_from_priorities\<close> for one
  end of the bond: the contribution of the end to \<open>ret\<close>.\<close>

definition bond_end_is_stereogenic :: "pri_dct \<Rightarrow> key list \<Rightarrow> error + bool" where
  "bond_end_is_stereogenic pri_dct nkeys =
     (if \<not> length nkeys \<le> 2 then Inl (AssertionError ''Too many neighbors!'')
      else case map_err (getitem pri_dct) nkeys of
             Inl e \<Rightarrow> Inl e
           | Inr pris \<Rightarrow>
               Inr (if nkeys = [] then False
                    else if length nkeys = 1 then True
                    else length (remdups pris) = length pris))"

definition bond_is_stereogenic :: "core \<Rightarrow> graph \<Rightarrow> pri_dct \<Rightarrow> bond_key \<Rightarrow> error + bool" where
  "bond_is_stereogenic c gra pri_dct key =
     (case bond_stereo_sorted_neighbor_keys c gra (fst key) (snd key) pri_dct of
        (nkey1s, nkey2s) \<Rightarrow>
          (case bond_end_is_stereogenic pri_dct nkey1s of Inl e \<Rightarrow> Inl e | Inr r1 \<Rightarrow>
           case bond_end_is_stereogenic pri_dct nkey2s of Inl e \<Rightarrow> Inl e | Inr r2 \<Rightarrow>
           Inr ((True \<and> r1) \<and> r2)))"

text \<open>The candidate bonds of \<open>stereogenic_bond_keys_from_priorities\<close>: the rigid, planar
  bonds, without the assigned ones unless \<open>assigned\<close>, without the bonds of
  the rings of fewer than 8 bonds.\<close>

definition candidate_bond_keys :: "core \<Rightarrow> graph \<Rightarrow> bool \<Rightarrow> bond_key fset" where
  "candidate_bond_keys c gra assigned =
     (let bnd_keys = rigid_planar_bond_keys c gra;
          bnd_keys = (if \<not> assigned then bnd_keys |-| bond_stereo_keys gra else bnd_keys);
          rng_bnd_keys_lst = rings_bond_keys c gra (Some False)
      in bnd_keys |-| fold (\<lambda>x acc. acc |\<union>| x) (filter (\<lambda>x. fcard x < 8) rng_bnd_keys_lst) {||})"

text \<open>\<open>stereogenic_bond_keys_from_priorities\<close>.\<close>

definition stereogenic_bond_keys_from_priorities ::
  "core \<Rightarrow> graph \<Rightarrow> pri_dct \<Rightarrow> bool \<Rightarrow> error + bond_key fset" where
  "stereogenic_bond_keys_from_priorities c gra0 pri_dct0 assigned =
     (let gra = without_pi_bonds c gra0;
          gra = explicit c gra
      in case assign_hydrogen_priorities c gra pri_dct0 False False of
           Inl e \<Rightarrow> Inl e
         | Inr pri_dct \<Rightarrow>
             (case filter_err (bond_is_stereogenic c gra pri_dct)
                     (sorted_list_of_fset (candidate_bond_keys c gra assigned)) of
                Inl e \<Rightarrow> Inl e
              | Inr ks \<Rightarrow> Inr (fset_of_list ks)))"

text \<open>\<open>stereogenic_keys_from_priorities\<close>.\<close>

definition stereogenic_keys_from_priorities ::
  "core \<Rightarrow> graph \<Rightarrow> pri_dct \<Rightarrow> bool \<Rightarrow> error + ste_keys" where
  "stereogenic_keys_from_priorities c gra pri_dct assigned =
     (case stereogenic_atom_keys_from_priorities c gra pri_dct assigned of
        Inl e \<Rightarrow> Inl e
      | Inr ste_atm_keys \<Rightarrow>
          (case stereogenic_bond_keys_from_priorities c gra pri_dct assigned of
             Inl e \<Rightarrow> Inl e
           | Inr ste_bnd_keys \<Rightarrow> Inr (ste_atm_keys, ste_bnd_keys)))"

section \<open>The canonicalization driver\<close>

text \<open>The dictionary \<open>{k: p_(k) for k in keys}\<close> of the parities of the stereogenic
  keys under an evaluator.\<close>

definition eval_parities :: "(ste_key \<Rightarrow> error + parity) \<Rightarrow> ste_keys \<Rightarrow> error + ste_dct" where
  "eval_parities p keys =
     (case map_err (\<lambda>k. case p (AtomKey k) of Inl e \<Rightarrow> Inl e | Inr v \<Rightarrow> Inr (k, v))
             (sorted_list_of_fset (fst keys)) of
        Inl e \<Rightarrow> Inl e
      | Inr akvs \<Rightarrow>
          (case map_err (\<lambda>k. case p (BondKey k) of Inl e \<Rightarrow> Inl e | Inr v \<Rightarrow> Inr (k, v))
                  (sorted_list_of_fset (snd keys)) of
             Inl e \<Rightarrow> Inl e
           | Inr bkvs \<Rightarrow> Inr (fmap_of_list akvs, fmap_of_list bkvs)))"

text \<open>The body of the loop of \<open>_algo\<close>, steps b to f.  The flag of the result
  tells whether the loop was left by \<open>break\<close>.\<close>

definition algo_body ::
  "core \<Rightarrow> par_eval \<Rightarrow> par_eval \<Rightarrow> graph \<Rightarrow> graph \<Rightarrow> graph \<Rightarrow> pri_dct option \<Rightarrow>
   (error + bool \<times> pri_dct \<times> graph \<times> graph) option" where
  "algo_body c par_eval1 par_eval2 gra0 gra1 gra2 pri_dct =
     Option.bind (refine_priorities c gra1 pri_dct) (\<lambda>r. Some (
       case r of Inl e \<Rightarrow> Inl e | Inr pri_dct1 \<Rightarrow>
       case stereogenic_keys_from_priorities c gra1 pri_dct1 False of Inl e \<Rightarrow> Inl e | Inr keys \<Rightarrow>
       if keys = ({||}, {||}) then Inr (True, pri_dct1, gra1, gra2) else
       case par_eval1 c gra0 pri_dct1 of Inl e \<Rightarrow> Inl e | Inr p1 \<Rightarrow>
       case eval_parities p1 keys of Inl e \<Rightarrow> Inl e | Inr par_dct1 \<Rightarrow>
       case par_eval2 c gra0 pri_dct1 of Inl e \<Rightarrow> Inl e | Inr p2 \<Rightarrow>
       case eval_parities p2 keys of Inl e \<Rightarrow> Inl e | Inr par_dct2 \<Rightarrow>
       Inr (False, pri_dct1, set_stereo_parities gra1 par_dct1, set_stereo_parities gra2 par_dct2)))"

text \<open>The loop \<open>while pri_dct0 != pri_dct1\<close> of \<open>_algo\<close> from its second test on.  (The
  first test compares the number 0 with the initial priorities and always
  succeeds.)\<close>

partial_function (option) algo_loop ::
  "core \<Rightarrow> par_eval \<Rightarrow> par_eval \<Rightarrow> graph \<Rightarrow> graph \<Rightarrow> graph \<Rightarrow> pri_dct option \<Rightarrow> pri_dct \<Rightarrow>
   (error + pri_dct \<times> graph \<times> graph) option" where
  "algo_loop c par_eval1 par_eval2 gra0 gra1 gra2 pri_dct0 pri_dct1 =
     (if pri_dct0 = Some pri_dct1 then Some (Inr (pri_dct1, gra1, gra2))
      else
        Option.bind (algo_body c par_eval1 par_eval2 gra0 gra1 gra2 (Some pri_dct1)) (\<lambda>r.
          case r of
            Inl e \<Rightarrow> Some (Inl e)
          | Inr (brk, pri_dct1', gra1', gra2') \<Rightarrow>
              if brk then Some (Inr (pri_dct1', gra1', gra2'))
              else algo_loop c par_eval1 par_eval2 gra0 gra1' gra2' (Some pri_dct1) pri_dct1'))"

declare algo_loop.simps [code]

text \<open>\<open>_algo\<close>: the first pass of the loop, then the loop.\<close>

definition algo ::
  "core \<Rightarrow> par_eval \<Rightarrow> par_eval \<Rightarrow> graph \<Rightarrow> pri_dct option \<Rightarrow> bool \<Rightarrow>
   (error + pri_dct \<times> graph \<times> graph) option" where
  "algo c par_eval1 par_eval2 gra pri_dct ts_rev =
     (let gra0 = (if ts_rev then ts_reverse c gra else gra);
          gra1 = without_stereo gra0;
          gra2 = without_stereo gra0
      in Option.bind
           (Option.bind (algo_body c par_eval1 par_eval2 gra0 gra1 gra2 pri_dct) (\<lambda>r.
              case r of
                Inl e \<Rightarrow> Some (Inl e)
              | Inr (brk, pri_dct1, gra1', gra2') \<Rightarrow>
                  if brk then Some (Inr (pri_dct1, gra1', gra2'))
                  else algo_loop c par_eval1 par_eval2 gra0 gra1' gra2' pri_dct pri_dct1))
           (\<lambda>r. Some (case r of
              Inl e \<Rightarrow> Inl e
            | Inr (pri_dct1, gra1', gra2') \<Rightarrow>
                Inr (pri_dct1, gra1', if ts_rev then ts_reverse c gra2' else gra2'))))"

subsection \<open>Representations for comparison\<close>

type_synonym ste_rep = "(int list \<times> parity) list"

text \<open>\<open>stereo_assignment_representation\<close>.\<close>

definition stereo_assignment_representation :: "graph \<Rightarrow> pri_dct \<Rightarrow> error + ste_rep" where
  "stereo_assignment_representation gra pri_dct =
     (case sorted_by (getitem pri_dct) (sorted_list_of_fset (atom_stereo_keys gra)) of
        Inl e \<Rightarrow> Inl e | Inr asrt \<Rightarrow>
      case sorted_by (\<lambda>(k1, k2). case map_err (getitem pri_dct) [k1, k2] of
                          Inl e \<Rightarrow> Inl e | Inr ps \<Rightarrow> Inr (sort_key (\<lambda>x. x) ps))
             (sorted_list_of_fset (bond_stereo_keys gra)) of
        Inl e \<Rightarrow> Inl e | Inr bsrt \<Rightarrow>
      let atm_keys = map snd asrt;
          bnd_keys = map snd bsrt;
          atm_pris = map (\<lambda>(p, k). [p]) asrt;
          bnd_pris = map fst bsrt;
          atm_pars = values_by_key (atom_stereo_parities gra) atm_keys None;
          bnd_pars = values_by_key (bond_stereo_parities gra) bnd_keys None
      in Inr (zip (atm_pris @ bnd_pris) (atm_pars @ bnd_pars)))"

text \<open>\<open>is_canonical_enantiomer\<close>.\<close>

definition is_canonical_enantiomer ::
  "graph \<Rightarrow> pri_dct \<Rightarrow> graph \<Rightarrow> pri_dct \<Rightarrow> error + bool option" where
  "is_canonical_enantiomer ugra upri_dct rgra rpri_dct =
     (case stereo_assignment_representation ugra upri_dct of Inl e \<Rightarrow> Inl e | Inr urep \<Rightarrow>
      case stereo_assignment_representation rgra rpri_dct of Inl e \<Rightarrow> Inl e | Inr rrep \<Rightarrow>
      Inr (if urep < rrep then Some True else if urep > rrep then Some False else None))"

type_synonym ts_rep = "(nat \<times> nat) \<times> (int list list \<times> int list list) \<times> ste_rep"

text \<open>\<open>ts_direction_representation\<close>.\<close>

definition ts_direction_representation :: "core \<Rightarrow> graph \<Rightarrow> pri_dct \<Rightarrow> error + ts_rep" where
  "ts_direction_representation c tsg pri_dct =
     (let frm_keys = ts_forming_bond_keys c tsg;
          brk_keys = ts_breaking_bond_keys c tsg;
          rxn_rep1 = (fcard frm_keys, fcard brk_keys);
          pris = (\<lambda>(k1, k2). case map_err (getitem pri_dct) [k1, k2] of
                    Inl e \<Rightarrow> Inl e | Inr ps \<Rightarrow> Inr (sort_key (\<lambda>x. x) ps))
      in case map_err pris (sorted_list_of_fset frm_keys) of Inl e \<Rightarrow> Inl e | Inr fs \<Rightarrow>
         case map_err pris (sorted_list_of_fset brk_keys) of Inl e \<Rightarrow> Inl e | Inr bs \<Rightarrow>
         case stereo_assignment_representation tsg pri_dct of Inl e \<Rightarrow> Inl e | Inr ste_rep \<Rightarrow>
         Inr (rxn_rep1, (sort_key (\<lambda>x. x) fs, sort_key (\<lambda>x. x) bs), ste_rep))"

text \<open>\<open>ts_is_canonical_direciton\<close>.\<close>

definition ts_is_canonical_direciton ::
  "core \<Rightarrow> graph \<Rightarrow> pri_dct \<Rightarrow> graph \<Rightarrow> pri_dct \<Rightarrow> error + bool" where
  "ts_is_canonical_direciton c ftsg0 fpri_dct0 rtsg0 rpri_dct0 =
     (let ftsg = implicit c ftsg0 in
      case by_key_int fpri_dct0 (atom_keys ftsg) of Inl e \<Rightarrow> Inl e | Inr fpri_dct \<Rightarrow>
      case ts_direction_representation c ftsg fpri_dct of Inl e \<Rightarrow> Inl e | Inr frep \<Rightarrow>
      let rtsg = implicit c rtsg0 in
      case by_key_int rpri_dct0 (atom_keys rtsg) of Inl e \<Rightarrow> Inl e | Inr rpri_dct \<Rightarrow>
      case ts_direction_representation c rtsg rpri_dct of Inl e \<Rightarrow> Inl e | Inr rrep \<Rightarrow>
      Inr (frep < rrep))"

text \<open>\<open>_calculate_priorities_and_assign_stereo\<close>, for one connected component.  The
  run on the reversed direction starts from the priorities of the forward run,
  to which the name \<open>pri_dct\<close> is bound by then.\<close>

definition calculate_priorities_and_assign_stereo_component ::
  "core \<Rightarrow> graph \<Rightarrow> par_eval option \<Rightarrow> par_eval option \<Rightarrow> bool \<Rightarrow> bool \<Rightarrow> pri_dct option \<Rightarrow>
   (error + pri_dct \<times> graph) option" where
  "calculate_priorities_and_assign_stereo_component c gra par_eval0 par_eval20 break_ties
      backbone_only pri_dct0 =
     (let par_eval1 = (case par_eval0 of None \<Rightarrow> parity_evaluator_read_canonical | Some p \<Rightarrow> p);
          par_eval2 = (case par_eval20 of None \<Rightarrow> par_eval1 | Some p \<Rightarrow> p)
      in
      Option.bind (algo c par_eval1 par_eval2 gra pri_dct0 False) (\<lambda>r.
        case r of Inl e \<Rightarrow> Some (Inl e) | Inr (pri_dct, gra1, gra2) \<Rightarrow>
      Option.bind
        (if is_ts_graph c gra then
           Option.bind (algo c par_eval1 par_eval2 gra (Some pri_dct) True) (\<lambda>r.
             Some (case r of Inl e \<Rightarrow> Inl e | Inr (rpri_dct, rgra1, rgra2) \<Rightarrow>
               case ts_is_canonical_direciton c gra1 pri_dct rgra1 rpri_dct of
                 Inl e \<Rightarrow> Inl e
               | Inr is_can \<Rightarrow>
                   if \<not> is_can then Inr (rpri_dct, rgra1, rgra2) else Inr (pri_dct, gra1, gra2)))
         else Some (Inr (pri_dct, gra1, gra2))) (\<lambda>r.
        case r of Inl e \<Rightarrow> Some (Inl e) | Inr (pri_dct, gra1, gra2) \<Rightarrow>
      Option.bind
        (if break_ties then break_priority_ties c gra1 pri_dct else Some (Inr pri_dct)) (\<lambda>r.
        Some (case r of Inl e \<Rightarrow> Inl e | Inr pri_dct \<Rightarrow>
          if \<not> backbone_only then
            (case assign_hydrogen_priorities c gra pri_dct break_ties False of
               Inl e \<Rightarrow> Inl e
             | Inr pri_dct' \<Rightarrow> Inr (pri_dct', gra2))
          else Inr (pri_dct, gra2))))))"

text \<open>The loop over the connected components in
  \<open>calculate_priorities_and_assign_stereo\<close>.\<close>

fun calculate_components ::
  "core \<Rightarrow> par_eval option \<Rightarrow> par_eval option \<Rightarrow> bool \<Rightarrow> bool \<Rightarrow>
   (graph \<times> pri_dct option) list \<Rightarrow> pri_dct \<Rightarrow> graph \<Rightarrow> (error + pri_dct \<times> graph) option" where
  "calculate_components c pe pe2 break_ties backbone_only [] pri_dct gra2 =
     Some (Inr (pri_dct, gra2))"
| "calculate_components c pe pe2 break_ties backbone_only ((cgra, cpri_dct) # rest) pri_dct gra2 =
     Option.bind
       (calculate_priorities_and_assign_stereo_component c cgra pe pe2 break_ties backbone_only
          cpri_dct) (\<lambda>r.
        case r of
          Inl e \<Rightarrow> Some (Inl e)
        | Inr (cpri_dct', cgra2) \<Rightarrow>
            calculate_components c pe pe2 break_ties backbone_only rest
              (pri_dct ++\<^sub>f cpri_dct') (set_stereo_parities gra2 (stereo_parities cgra2)))"

text \<open>\<open>calculate_priorities_and_assign_stereo\<close>, the public entry point: the dummy
  atoms are removed and the graph is split into its connected components.\<close>

definition calculate_priorities_and_assign_stereo ::
  "core \<Rightarrow> graph \<Rightarrow> par_eval option \<Rightarrow> par_eval option \<Rightarrow> bool \<Rightarrow> bool \<Rightarrow> pri_dct option \<Rightarrow>
   (error + pri_dct \<times> graph) option" where
  "calculate_priorities_and_assign_stereo c gra0 pe pe2 break_ties backbone_only pri_dct0 =
     (let gra2 = without_stereo gra0;
          gra = without_dummy_atoms c gra0;
          cgras = connected_components c gra
      in case map_err (\<lambda>cgra. case pri_dct0 of
                          None \<Rightarrow> Inr None
                        | Some p \<Rightarrow> (case by_key_int p (atom_keys cgra) of
                                       Inl e \<Rightarrow> Inl e | Inr q \<Rightarrow> Inr (Some q))) cgras of
           Inl e \<Rightarrow> Some (Inl e)
         | Inr cpri_dcts \<Rightarrow>
             calculate_components c pe pe2 break_ties backbone_only (zip cgras cpri_dcts)
               fmempty gra2)"

section \<open>Canonical keys and graphs\<close>

text \<open>\<open>canonical_priorities\<close>.\<close>

definition canonical_priorities ::
  "core \<Rightarrow> graph \<Rightarrow> bool \<Rightarrow> bool \<Rightarrow> pri_dct option \<Rightarrow> (error + pri_dct) option" where
  "canonical_priorities c gra backbone_only break_ties pri_dct =
     map_option (map_sum id fst)
       (calculate_priorities_and_assign_stereo c gra None None break_ties backbone_only pri_dct)"

text \<open>\<open>canonical_keys\<close>: the two assertions compare the parities of the returned
  graph with those of the input and report both.\<close>

definition canonical_keys :: "core \<Rightarrow> graph \<Rightarrow> bool \<Rightarrow> (error + pri_dct) option" where
  "canonical_keys c gra0 backbone_only =
     (let atm_par_dct0 = atom_stereo_parities gra0;
          bnd_par_dct0 = bond_stereo_parities gra0
      in Option.bind
           (calculate_priorities_and_assign_stereo c gra0 None None True backbone_only None) (\<lambda>r.
         Some (case r of
           Inl e \<Rightarrow> Inl e
         | Inr (can_key_dct, gra) \<Rightarrow>
             let atm_par_dct = atom_stereo_parities gra;
                 bnd_par_dct = bond_stereo_parities gra
             in if \<not> atm_par_dct = atm_par_dct0 then Inl (AtomParityMismatch atm_par_dct0 atm_par_dct)
                else if \<not> bnd_par_dct = bnd_par_dct0 then
                  Inl (BondParityMismatch bnd_par_dct0 bnd_par_dct)
                else Inr can_key_dct)))"

text \<open>\<open>canonical\<close>.\<close>

definition canonical :: "core \<Rightarrow> graph \<Rightarrow> (error + graph) option" where
  "canonical c gra =
     Option.bind (canonical_keys c gra False) (\<lambda>r.
       Some (case r of Inl e \<Rightarrow> Inl e | Inr can_key_dct \<Rightarrow> relabel gra can_key_dct))"

section \<open>Local stereo\<close>

text \<open>\<open>to_local_stereo\<close>.\<close>

definition to_local_stereo :: "core \<Rightarrow> graph \<Rightarrow> pri_dct option \<Rightarrow> (error + graph) option" where
  "to_local_stereo c gra pri_dct =
     (let can_gra = gra in
      if has_stereo can_gra then
        (case (case pri_dct of None \<Rightarrow> Inr None
               | Some p \<Rightarrow> (case by_key_int p (backbone_keys c can_gra None) of
                              Inl e \<Rightarrow> Inl e | Inr q \<Rightarrow> Inr (Some q))) of
           Inl e \<Rightarrow> Some (Inl e)
         | Inr pri_dct' \<Rightarrow>
             map_option (map_sum id snd)
               (calculate_priorities_and_assign_stereo c can_gra
                  (Some parity_evaluator_read_canonical) (Some parity_evaluator_flip_local)
                  False False pri_dct'))
      else Some (Inr can_gra))"

text \<open>\<open>from_local_stereo\<close>.\<close>

definition from_local_stereo :: "core \<Rightarrow> graph \<Rightarrow> pri_dct option \<Rightarrow> (error + graph) option" where
  "from_local_stereo c gra pri_dct =
     (let loc_gra = gra in
      if has_stereo loc_gra then
        (case (case pri_dct of None \<Rightarrow> Inr None
               | Some p \<Rightarrow> (case by_key_int p (backbone_keys c loc_gra None) of
                              Inl e \<Rightarrow> Inl e | Inr q \<Rightarrow> Inr (Some q))) of
           Inl e \<Rightarrow> Some (Inl e)
         | Inr pri_dct' \<Rightarrow>
             map_option (map_sum id snd)
               (calculate_priorities_and_assign_stereo c loc_gra
                  (Some parity_evaluator_flip_local) (Some parity_evaluator_flip_local)
                  False False pri_dct'))
      else Some (Inr loc_gra))"

text \<open>\<open>reflect\<close>.\<close>

definition reflect :: "core \<Rightarrow> graph \<Rightarrow> (error + graph) option" where
  "reflect c gra =
     (if has_atom_stereo gra then
        Option.bind (to_local_stereo c gra None) (\<lambda>r.
          case r of
            Inl e \<Rightarrow> Some (Inl e)
          | Inr loc_gra \<Rightarrow> from_local_stereo c (reflect_local_stereo loc_gra) None)
      else Some (Inr gra))"

section \<open>The canonical enantiomer\<close>

text \<open>\<open>canonical_enantiomer_with_keys\<close>.\<close>

definition canonical_enantiomer_with_keys ::
  "core \<Rightarrow> graph \<Rightarrow> (error + graph \<times> pri_dct \<times> bool option) option" where
  "canonical_enantiomer_with_keys c gra =
     (if \<not> has_atom_stereo gra then
        Option.bind (canonical_keys c gra False) (\<lambda>r.
          Some (case r of Inl e \<Rightarrow> Inl e | Inr ce_can_key_dct \<Rightarrow> Inr (gra, ce_can_key_dct, None)))
      else
        let ugra = gra in
        Option.bind
          (calculate_priorities_and_assign_stereo c ugra
             (Some parity_evaluator_read_canonical) (Some parity_evaluator_flip_local)
             True False None) (\<lambda>r.
          case r of Inl e \<Rightarrow> Some (Inl e) | Inr (ucan_key_dct, uloc_gra) \<Rightarrow>
          let rloc_gra = reflect_local_stereo uloc_gra in
          Option.bind
            (calculate_priorities_and_assign_stereo c rloc_gra
               (Some parity_evaluator_flip_local) (Some parity_evaluator_flip_local)
               True False None) (\<lambda>r.
            Some (case r of Inl e \<Rightarrow> Inl e | Inr (rcan_key_dct, rgra) \<Rightarrow>
              case is_canonical_enantiomer ugra ucan_key_dct rgra rcan_key_dct of
                Inl e \<Rightarrow> Inl e
              | Inr is_can \<Rightarrow>
                  let is_refl = (case is_can of None \<Rightarrow> None | Some b \<Rightarrow> Some (\<not> b))
                  in if is_refl = Some True then Inr (rgra, rcan_key_dct, is_refl)
                     else Inr (ugra, ucan_key_dct, is_refl)))))"

text \<open>\<open>canonical_enantiomer\<close>.\<close>

definition canonical_enantiomer :: "core \<Rightarrow> graph \<Rightarrow> (error + graph \<times> bool option) option" where
  "canonical_enantiomer c gra =
     map_option (map_sum id (\<lambda>(ce_gra, ce_can_key_dct, is_refl). (ce_gra, is_refl)))
       (canonical_enantiomer_with_keys c gra)"

section \<open>An instance of the graph core\<close>

text \<open>
  Modelled from the spec: the functions of the absent graph core, for
  evaluating the module on concrete molecules.  The instance follows the data
  model of section 3 and the interface list of section 6 of the specification:
  neighbours are the atoms joined by a bond; a dummy atom has the symbol \<open>X\<close>;
  the connected components are the classes of atoms reachable from each
  other along bonds; a hydrogen atom with a single neighbour that is not a
  hydrogen is outside the backbone, and \<open>implicit\<close> folds it into the hydrogen
  count of its neighbour while \<open>explicit\<close> unfolds every count into hydrogen
  atoms with fresh keys; \<open>without_pi_bonds\<close> sets every non-reacting bond order
  to 1; the orders 0.1 and 0.9 mark forming and breaking bonds and
  \<open>ts_reverse\<close> exchanges them; a tetrahedral candidate has four connections,
  implicit hydrogens included; the sorted neighbour keys are the neighbours by
  ascending priority.  The perception of rigid, planar bonds uses the atoms
  that lack exactly one connection to their valence; rings are not perceived,
  so the instance serves graphs in which no rigid, planar bond lies on a ring.
\<close>

definition mol_bond_key :: "key \<Rightarrow> key \<Rightarrow> bond_key" where
  "mol_bond_key k j = (min k j, max k j)"

definition mol_neighbors :: "graph \<Rightarrow> key \<Rightarrow> key fset" where
  "mol_neighbors gra k =
     ffilter (\<lambda>j. j \<noteq> k \<and> mol_bond_key k j |\<in>| bond_keys gra) (atom_keys gra)"

definition mol_symbol :: "graph \<Rightarrow> key \<Rightarrow> string" where
  "mol_symbol gra k = (case fmlookup (atoms gra) k of None \<Rightarrow> [] | Some (symb, hyd, par) \<Rightarrow> symb)"

definition mol_subgraph :: "graph \<Rightarrow> key fset \<Rightarrow> graph" where
  "mol_subgraph gra ks =
     gra\<lparr>atoms := fmfilter (\<lambda>k. k |\<in>| ks) (atoms gra),
         bonds := fmfilter (\<lambda>(k1, k2). k1 |\<in>| ks \<and> k2 |\<in>| ks) (bonds gra)\<rparr>"

fun mol_grow :: "graph \<Rightarrow> nat \<Rightarrow> key list \<Rightarrow> key list" where
  "mol_grow gra 0 ks = ks"
| "mol_grow gra (Suc n) ks =
     mol_grow gra n
       (sorted_list_of_fset
          (fset_of_list ks |\<union>| ffUnion (mol_neighbors gra |`| fset_of_list ks)))"

definition mol_reachable :: "graph \<Rightarrow> key \<Rightarrow> key fset" where
  "mol_reachable gra k = fset_of_list (mol_grow gra (fcard (atom_keys gra)) [k])"

fun mol_components :: "graph \<Rightarrow> key list \<Rightarrow> key fset \<Rightarrow> graph list" where
  "mol_components gra [] seen = []"
| "mol_components gra (k # ks) seen =
     (if k |\<in>| seen then mol_components gra ks seen
      else let comp = mol_reachable gra k
           in mol_subgraph gra comp # mol_components gra ks (seen |\<union>| comp))"

definition mol_connected_components :: "graph \<Rightarrow> graph list" where
  "mol_connected_components gra = mol_components gra (sorted_list_of_fset (atom_keys gra)) {||}"

definition mol_is_connected :: "graph \<Rightarrow> bool" where
  "mol_is_connected gra = (length (mol_connected_components gra) = 1)"

definition mol_without_dummy_atoms :: "graph \<Rightarrow> graph" where
  "mol_without_dummy_atoms gra =
     mol_subgraph gra (ffilter (\<lambda>k. mol_symbol gra k \<noteq> ''X'') (atom_keys gra))"

definition mol_atom_keys_symb :: "graph \<Rightarrow> string \<Rightarrow> key fset" where
  "mol_atom_keys_symb gra symb = ffilter (\<lambda>k. mol_symbol gra k = symb) (atom_keys gra)"

definition mol_backbone_hydrogen_keys :: "graph \<Rightarrow> key fset" where
  "mol_backbone_hydrogen_keys gra =
     ffilter (\<lambda>h. (\<forall>n \<in> fset (mol_neighbors gra h). mol_symbol gra n = ''H'' \<and> h < n)
                \<or> fcard (mol_neighbors gra h) > 1)
       (mol_atom_keys_symb gra ''H'')"

definition mol_nonbackbone_hydrogen_keys :: "graph \<Rightarrow> key fset" where
  "mol_nonbackbone_hydrogen_keys gra =
     mol_atom_keys_symb gra ''H'' |-| mol_backbone_hydrogen_keys gra"

definition mol_backbone_keys :: "graph \<Rightarrow> bool option \<Rightarrow> key fset" where
  "mol_backbone_keys gra hyd =
     (atom_keys gra |-| mol_atom_keys_symb gra ''H'')
     |\<union>| (if hyd = Some False then {||} else mol_backbone_hydrogen_keys gra)"

definition mol_atom_nonbackbone_hydrogen_keys :: "graph \<Rightarrow> (key, key list) fmap" where
  "mol_atom_nonbackbone_hydrogen_keys gra =
     fmap_of_list (map (\<lambda>k. (k, sorted_list_of_fset
         (mol_neighbors gra k |\<inter>| mol_nonbackbone_hydrogen_keys gra)))
       (sorted_list_of_fset (atom_keys gra)))"

definition mol_implicit :: "graph \<Rightarrow> graph" where
  "mol_implicit gra =
     (let hyds = mol_nonbackbone_hydrogen_keys gra;
          gra' = gra\<lparr>atoms := fmmap_keys (\<lambda>k (symb, hyd, par).
                   (symb, hyd + int (fcard (mol_neighbors gra k |\<inter>| hyds)), par)) (atoms gra)\<rparr>
      in mol_subgraph gra' (atom_keys gra |-| hyds))"

fun mol_add_hydrogens :: "key \<Rightarrow> (key \<times> int) list \<Rightarrow> graph \<Rightarrow> graph" where
  "mol_add_hydrogens next_key [] gra = gra"
| "mol_add_hydrogens next_key ((k, n) # rest) gra =
     mol_add_hydrogens (next_key + n) rest
       (gra\<lparr>atoms := fold (\<lambda>h. fmupd h (''H'', 0, None)) [next_key .. next_key + n - 1] (atoms gra),
            bonds := fold (\<lambda>h. fmupd (mol_bond_key k h) (1, None)) [next_key .. next_key + n - 1]
                       (bonds gra)\<rparr>)"

definition mol_explicit :: "graph \<Rightarrow> graph" where
  "mol_explicit gra =
     (let bbn = sorted_list_of_fset (mol_backbone_keys gra None);
          counts = map (\<lambda>k. (k, case fmlookup (atoms gra) k of
                                    None \<Rightarrow> 0 | Some (symb, hyd, par) \<Rightarrow> max 0 hyd)) bbn;
          gra' = gra\<lparr>atoms := fmmap_keys (\<lambda>k (symb, hyd, par).
                   (symb, if k \<in> set bbn then 0 else hyd, par)) (atoms gra)\<rparr>
      in if atom_keys gra = {||} then gra
         else mol_add_hydrogens (Max (fset (atom_keys gra)) + 1) counts gra')"

definition mol_without_pi_bonds :: "graph \<Rightarrow> graph" where
  "mol_without_pi_bonds gra =
     gra\<lparr>bonds := fmmap (\<lambda>(ord, par).
            (if ord = 0 \<or> ord = 1 / 10 \<or> ord = 9 / 10 then ord else 1, par)) (bonds gra)\<rparr>"

definition mol_without_bonds_by_orders :: "graph \<Rightarrow> rat list \<Rightarrow> graph" where
  "mol_without_bonds_by_orders gra ords =
     gra\<lparr>bonds := fmfilter (\<lambda>b. case fmlookup (bonds gra) b of
                                   None \<Rightarrow> False | Some (ord, par) \<Rightarrow> ord \<notin> set ords)
                     (bonds gra)\<rparr>"

definition mol_atoms_neighbor_atom_keys :: "graph \<Rightarrow> bool option \<Rightarrow> (key, key fset) fmap" where
  "mol_atoms_neighbor_atom_keys gra ts =
     fmap_of_list (map (\<lambda>k. (k, mol_neighbors gra k)) (sorted_list_of_fset (atom_keys gra)))"

definition mol_atoms_bond_keys :: "graph \<Rightarrow> bool option \<Rightarrow> (key, bond_key list) fmap" where
  "mol_atoms_bond_keys gra ts =
     fmap_of_list (map (\<lambda>k. (k, map (mol_bond_key k) (sorted_list_of_fset (mol_neighbors gra k))))
       (sorted_list_of_fset (atom_keys gra)))"

definition mol_mass_number :: "string \<Rightarrow> int" where
  "mol_mass_number symb =
     (if symb = ''H'' then 1 else if symb = ''C'' then 12 else if symb = ''N'' then 14
      else if symb = ''O'' then 16 else if symb = ''F'' then 19 else if symb = ''Cl'' then 35
      else if symb = ''Br'' then 79 else 0)"

definition mol_valence :: "string \<Rightarrow> int" where
  "mol_valence symb =
     (if symb = ''C'' then 4 else if symb = ''N'' then 3 else if symb = ''O'' then 2
      else if symb \<in> {''H'', ''F'', ''Cl'', ''Br''} then 1 else 0)"

definition mol_bond_count :: "graph \<Rightarrow> key \<Rightarrow> int" where
  "mol_bond_count gra k =
     int (fcard (mol_neighbors gra k))
     + (case fmlookup (atoms gra) k of None \<Rightarrow> 0 | Some (symb, hyd, par) \<Rightarrow> hyd)"

definition mol_tetrahedral_atom_keys :: "graph \<Rightarrow> key fset" where
  "mol_tetrahedral_atom_keys gra = ffilter (\<lambda>k. mol_bond_count gra k = 4) (atom_keys gra)"

definition mol_rigid_planar_bond_keys :: "graph \<Rightarrow> bond_key fset" where
  "mol_rigid_planar_bond_keys gra =
     ffilter (\<lambda>(k1, k2).
        mol_valence (mol_symbol gra k1) - mol_bond_count gra k1 = 1 \<and>
        mol_valence (mol_symbol gra k2) - mol_bond_count gra k2 = 1) (bond_keys gra)"

definition mol_sorted_by_priority :: "pri_dct \<Rightarrow> key fset \<Rightarrow> key list" where
  "mol_sorted_by_priority pri_dct ks =
     sort_key (\<lambda>k. case fmlookup pri_dct k of None \<Rightarrow> 0 | Some p \<Rightarrow> p) (sorted_list_of_fset ks)"

definition mol_atom_stereo_sorted_neighbor_keys :: "graph \<Rightarrow> key \<Rightarrow> pri_dct \<Rightarrow> key list" where
  "mol_atom_stereo_sorted_neighbor_keys gra k pri_dct =
     mol_sorted_by_priority pri_dct (mol_neighbors gra k)"

definition mol_bond_stereo_sorted_neighbor_keys ::
  "graph \<Rightarrow> key \<Rightarrow> key \<Rightarrow> pri_dct \<Rightarrow> key list \<times> key list" where
  "mol_bond_stereo_sorted_neighbor_keys gra k1 k2 pri_dct =
     (mol_sorted_by_priority pri_dct (mol_neighbors gra k1 |-| {|k2|}),
      mol_sorted_by_priority pri_dct (mol_neighbors gra k2 |-| {|k1|}))"

definition mol_bond_keys_of_order :: "graph \<Rightarrow> rat \<Rightarrow> bond_key fset" where
  "mol_bond_keys_of_order gra ord =
     ffilter (\<lambda>b. fmlookup (bond_orders gra) b = Some ord) (bond_keys gra)"

definition mol_is_ts_graph :: "graph \<Rightarrow> bool" where
  "mol_is_ts_graph gra =
     (mol_bond_keys_of_order gra (1 / 10) |\<union>| mol_bond_keys_of_order gra (9 / 10) \<noteq> {||})"

definition mol_ts_reverse :: "graph \<Rightarrow> graph" where
  "mol_ts_reverse gra =
     gra\<lparr>bonds := fmmap (\<lambda>(ord, par).
            (if ord = 1 / 10 then 9 / 10 else if ord = 9 / 10 then 1 / 10 else ord, par))
          (bonds gra)\<rparr>"

text \<open>The number of inversions of the second sequence relative to the first
  decides whether the permutation between them is even.\<close>

definition mol_is_even_permutation :: "key list \<Rightarrow> key list \<Rightarrow> bool" where
  "mol_is_even_permutation seq1 seq2 =
     (let pos = (\<lambda>x. length (takeWhile (\<lambda>y. y \<noteq> x) seq2));
          perm = map pos seq1
      in even (length (filter (\<lambda>(i, j). i < j \<and> perm ! i > perm ! j)
                 (List.product [0 ..< length perm] [0 ..< length perm]))))"

definition mol_core :: core where
  "mol_core = \<lparr>
     is_connected = mol_is_connected,
     connected_components = mol_connected_components,
     without_dummy_atoms = mol_without_dummy_atoms,
     implicit = mol_implicit,
     explicit = mol_explicit,
     without_pi_bonds = mol_without_pi_bonds,
     without_bonds_by_orders = mol_without_bonds_by_orders,
     atoms_neighbor_atom_keys = mol_atoms_neighbor_atom_keys,
     atoms_bond_keys = mol_atoms_bond_keys,
     to_symbol = (\<lambda>symb. symb),
     mass_numbers = (\<lambda>gra. fmmap (\<lambda>(symb, hyd, par). mol_mass_number symb) (atoms gra)),
     atom_keys_symb = mol_atom_keys_symb,
     backbone_keys = mol_backbone_keys,
     backbone_hydrogen_keys = mol_backbone_hydrogen_keys,
     nonbackbone_hydrogen_keys = mol_nonbackbone_hydrogen_keys,
     atom_nonbackbone_hydrogen_keys = mol_atom_nonbackbone_hydrogen_keys,
     tetrahedral_atom_keys = mol_tetrahedral_atom_keys,
     rigid_planar_bond_keys = mol_rigid_planar_bond_keys,
     rings_bond_keys = (\<lambda>gra ts. []),
     atom_stereo_sorted_neighbor_keys = mol_atom_stereo_sorted_neighbor_keys,
     bond_stereo_sorted_neighbor_keys = mol_bond_stereo_sorted_neighbor_keys,
     is_ts_graph = mol_is_ts_graph,
     ts_reverse = mol_ts_reverse,
     ts_forming_bond_keys = (\<lambda>gra. mol_bond_keys_of_order gra (1 / 10)),
     ts_breaking_bond_keys = (\<lambda>gra. mol_bond_keys_of_order gra (9 / 10)),
     is_even_permutation = mol_is_even_permutation\<rparr>"

section \<open>Notions of the specification and example molecules\<close>

text \<open>The substituents of the two ends of a bond, as \<open>_is_stereogenic\<close> reads them.\<close>

definition bond_ends :: "core \<Rightarrow> graph \<Rightarrow> pri_dct \<Rightarrow> bond_key \<Rightarrow> key list \<times> key list" where
  "bond_ends c gra pri_dct b = bond_stereo_sorted_neighbor_keys c gra (fst b) (snd b) pri_dct"

text \<open>
  The condition on one end of a bond in the words of the specification
  (section 4.3): an end with no substituent is never stereogenic, an end with
  one substituent distinguishes by itself, an end with two substituents
  needs them to have distinct priorities.
\<close>

definition end_distinguishes :: "pri_dct \<Rightarrow> key list \<Rightarrow> bool" where
  "end_distinguishes pri_dct nkeys =
     (case nkeys of
        [] \<Rightarrow> False
      | [n] \<Rightarrow> True
      | [n1, n2] \<Rightarrow> fmlookup pri_dct n1 \<noteq> fmlookup pri_dct n2
      | _ \<Rightarrow> False)"

text \<open>1,2-difluoroethene, F-CH=CH-F, with the priorities of its refined classes.\<close>

definition difluoroethene :: graph where
  "difluoroethene = \<lparr>
     atoms = fmap_of_list [(0, (''C'', 1, None)), (1, (''C'', 1, None)),
                           (2, (''F'', 0, None)), (3, (''F'', 0, None))],
     bonds = fmap_of_list [((0, 1), (1, None)), ((0, 2), (1, None)), ((1, 3), (1, None))]\<rparr>"

definition difluoroethene_priorities :: pri_dct where
  "difluoroethene_priorities = fmap_of_list [(0, 0), (1, 0), (2, 2), (3, 2)]"

definition difluoroethene_hydrogen_priorities :: pri_dct where
  "difluoroethene_hydrogen_priorities =
     fmap_of_list [(0, 0), (1, 0), (2, 2), (3, 2), (4, 3), (5, 3)]"

text \<open>The consistency violations of section 7 of the specification: the failures of the
  two assertions of \<open>canonical_keys\<close>.\<close>

definition is_consistency_violation :: "error \<Rightarrow> bool" where
  "is_consistency_violation e =
     (case e of AtomParityMismatch x y \<Rightarrow> True | BondParityMismatch x y \<Rightarrow> True | _ \<Rightarrow> False)"

text \<open>A parity evaluator that raises no consistency violation of its own.\<close>

definition par_eval_plain :: "par_eval \<Rightarrow> bool" where
  "par_eval_plain pe \<longleftrightarrow>
     (\<forall>c gra pri e. pe c gra pri = Inl e \<longrightarrow> \<not> is_consistency_violation e)
   \<and> (\<forall>c gra pri p k e. pe c gra pri = Inr p \<longrightarrow> p k = Inl e \<longrightarrow> \<not> is_consistency_violation e)"

text \<open>Methanol with the oxygen first, and the same graph with a parity on its carbon
  atom, which is no stereocentre.\<close>

definition methanol_oc :: graph where
  "methanol_oc = \<lparr>
     atoms = fmap_of_list [(0, (''O'', 1, None)), (1, (''C'', 3, None))],
     bonds = fmap_of_list [((0, 1), (1, None))]\<rparr>"

definition methanol_with_parity :: graph where
  "methanol_with_parity = \<lparr>
     atoms = fmap_of_list [(0, (''O'', 1, None)), (1, (''C'', 3, Some True))],
     bonds = fmap_of_list [((0, 1), (1, None))]\<rparr>"

text \<open>Methanol with the carbon first: the canonical form of \<open>methanol_oc\<close>.\<close>

definition methanol_co :: graph where
  "methanol_co = \<lparr>
     atoms = fmap_of_list [(0, (''C'', 3, None)), (1, (''O'', 1, None))],
     bonds = fmap_of_list [((0, 1), (1, None))]\<rparr>"


text \<open>
  1-bromo-2-chloro-1,2-difluoroethane, F-CH(Cl)-CH(F)-Br, with the parity of
  the first carbon atom assigned and that of the second left open, and the
  graphs that the conversions to and from local stereo make of it.
\<close>

definition halo_ethane :: "parity \<Rightarrow> parity \<Rightarrow> graph" where
  "halo_ethane par0 par1 = \<lparr>
     atoms = fmap_of_list [(0, (''C'', 1, par0)), (1, (''C'', 1, par1)), (2, (''F'', 0, None)),
                           (3, (''Cl'', 0, None)), (4, (''F'', 0, None)), (5, (''Br'', 0, None))],
     bonds = fmap_of_list [((0, 1), (1, None)), ((0, 2), (1, None)), ((0, 3), (1, None)),
                           ((1, 4), (1, None)), ((1, 5), (1, None))]\<rparr>"


text \<open>
  Cuneane, C8H8: the atoms 0 to 7 along the eight-membered ring, with the four
  bonds across it.  Every atom has three carbon neighbours and one hydrogen, but
  the atoms fall into three classes of symmetry: 0 and 4 lie on no
  three-membered ring, the others do.  \<open>cuneane_relabelled\<close> is the same molecule
  with the keys 0 and 7 exchanged, and the other two graphs are what
  \<open>canonical\<close> makes of the two.
\<close>

definition cuneane :: graph where
  "cuneane = \<lparr>
     atoms = fmap_of_list (map (\<lambda>k. (k, (''C'', 1, None))) [0, 1, 2, 3, 4, 5, 6, 7]),
     bonds = fmap_of_list (map (\<lambda>b. (b, (1, None)))
       [(0, 1), (1, 2), (2, 3), (3, 4), (4, 5), (5, 6), (6, 7), (0, 7),
        (0, 4), (1, 3), (2, 6), (5, 7)])\<rparr>"

definition cuneane_swap :: "(key, key) fmap" where
  "cuneane_swap = fmap_of_list [(0, 7), (1, 1), (2, 2), (3, 3), (4, 4), (5, 5), (6, 6), (7, 0)]"

definition cuneane_relabelled :: graph where
  "cuneane_relabelled = \<lparr>
     atoms = fmap_of_list (map (\<lambda>k. (k, (''C'', 1, None))) [0, 1, 2, 3, 4, 5, 6, 7]),
     bonds = fmap_of_list (map (\<lambda>b. (b, (1, None)))
       [(1, 7), (1, 2), (2, 3), (3, 4), (4, 5), (5, 6), (0, 6), (0, 7),
        (4, 7), (1, 3), (2, 6), (0, 5)])\<rparr>"

definition canonical_cuneane :: graph where
  "canonical_cuneane = \<lparr>
     atoms = fmap_of_list (map (\<lambda>k. (k, (''C'', 1, None))) [0, 1, 2, 3, 4, 5, 6, 7]),
     bonds = fmap_of_list (map (\<lambda>b. (b, (1, None)))
       [(0, 1), (0, 2), (0, 3), (1, 2), (1, 4), (2, 5), (3, 4), (3, 6), (4, 7),
        (5, 6), (5, 7), (6, 7)])\<rparr>"

definition canonical_cuneane_relabelled :: graph where
  "canonical_cuneane_relabelled = \<lparr>
     atoms = fmap_of_list (map (\<lambda>k. (k, (''C'', 1, None))) [0, 1, 2, 3, 4, 5, 6, 7]),
     bonds = fmap_of_list (map (\<lambda>b. (b, (1, None)))
       [(0, 1), (0, 2), (0, 4), (1, 3), (1, 5), (2, 4), (2, 6), (3, 5), (3, 6),
        (4, 7), (5, 7), (6, 7)])\<rparr>"


section \<open>Properties\<close>

lemma reflect_local_stereo_atoms:
  "atoms (reflect_local_stereo gra) =
     fmmap (\<lambda>(symb, hyd, par). (symb, hyd, map_option Not par)) (atoms gra)"
proof (rule fmap_ext)
  fix k
  show "fmlookup (atoms (reflect_local_stereo gra)) k =
        fmlookup (fmmap (\<lambda>(symb, hyd, par). (symb, hyd, map_option Not par)) (atoms gra)) k"
    by (cases "fmlookup (atoms gra) k")
      (auto simp: reflect_local_stereo_def set_atom_stereo_parities_def
        atom_stereo_parities_def transform_values_def Let_def split: option.splits)
qed

lemma reflect_local_stereo_bonds:
  "bonds (reflect_local_stereo gra) = bonds gra"
  by (simp add: reflect_local_stereo_def set_atom_stereo_parities_def Let_def)

lemma reflect_local_stereo_twice:
  "reflect_local_stereo (reflect_local_stereo gra) = gra"
proof -
  have "atoms (reflect_local_stereo (reflect_local_stereo gra)) = atoms gra"
  proof (rule fmap_ext)
    fix k
    show "fmlookup (atoms (reflect_local_stereo (reflect_local_stereo gra))) k =
          fmlookup (atoms gra) k"
      by (cases "fmlookup (atoms gra) k")
        (auto simp: reflect_local_stereo_atoms option.map_comp comp_def option.map_ident)
  qed
  moreover have "bonds (reflect_local_stereo (reflect_local_stereo gra)) = bonds gra"
    by (simp add: reflect_local_stereo_bonds)
  moreover have "graph.more (reflect_local_stereo (reflect_local_stereo gra)) = graph.more gra"
    by (simp add: reflect_local_stereo_def set_atom_stereo_parities_def Let_def)
  ultimately show ?thesis by simp
qed

text \<open>
  Claim C10.  \<open>reflect_local_stereo\<close> changes only the atom stereo parities:
  an assigned atom parity is negated, an unassigned one stays unassigned, and
  the bond stereo parities, the bond orders, the atom symbols, the implicit
  hydrogen counts and the atom and bond key sets of the result are those of the
  input.  Hence reflecting twice gives the input graph back.
\<close>

theorem reflect_local_stereo_frame:
  "atom_stereo_parities (reflect_local_stereo gra) =
     fmmap (\<lambda>par. case par of None \<Rightarrow> None | Some b \<Rightarrow> Some (\<not> b))
       (atom_stereo_parities gra)
   \<and> bond_stereo_parities (reflect_local_stereo gra) = bond_stereo_parities gra
   \<and> bond_orders (reflect_local_stereo gra) = bond_orders gra
   \<and> atom_symbols (reflect_local_stereo gra) = atom_symbols gra
   \<and> atom_implicit_hydrogens (reflect_local_stereo gra) = atom_implicit_hydrogens gra
   \<and> atom_keys (reflect_local_stereo gra) = atom_keys gra
   \<and> bond_keys (reflect_local_stereo gra) = bond_keys gra
   \<and> reflect_local_stereo (reflect_local_stereo gra) = gra"
proof -
  have par: "atom_stereo_parities (reflect_local_stereo gra) =
     fmmap (\<lambda>par. case par of None \<Rightarrow> None | Some b \<Rightarrow> Some (\<not> b))
       (atom_stereo_parities gra)"
  proof (rule fmap_ext)
    fix k
    show "fmlookup (atom_stereo_parities (reflect_local_stereo gra)) k =
          fmlookup (fmmap (\<lambda>par. case par of None \<Rightarrow> None | Some b \<Rightarrow> Some (\<not> b))
            (atom_stereo_parities gra)) k"
      by (cases "fmlookup (atoms gra) k")
        (auto simp: atom_stereo_parities_def reflect_local_stereo_atoms split: option.splits)
  qed
  have symb: "atom_symbols (reflect_local_stereo gra) = atom_symbols gra"
  proof (rule fmap_ext)
    fix k
    show "fmlookup (atom_symbols (reflect_local_stereo gra)) k = fmlookup (atom_symbols gra) k"
      by (cases "fmlookup (atoms gra) k")
        (auto simp: atom_symbols_def reflect_local_stereo_atoms)
  qed
  have hyd: "atom_implicit_hydrogens (reflect_local_stereo gra) = atom_implicit_hydrogens gra"
  proof (rule fmap_ext)
    fix k
    show "fmlookup (atom_implicit_hydrogens (reflect_local_stereo gra)) k =
          fmlookup (atom_implicit_hydrogens gra) k"
      by (cases "fmlookup (atoms gra) k")
        (auto simp: atom_implicit_hydrogens_def reflect_local_stereo_atoms)
  qed
  have keys: "atom_keys (reflect_local_stereo gra) = atom_keys gra"
    by (simp add: atom_keys_def reflect_local_stereo_atoms)
  show ?thesis
    using par symb hyd keys reflect_local_stereo_twice [of gra]
    by (simp add: bond_stereo_parities_def bond_orders_def bond_keys_def
        reflect_local_stereo_bonds)
qed

subsection \<open>Raising maps and filters\<close>

lemma map_err_Inr: "map_err f xs = Inr ys \<Longrightarrow> list_all2 (\<lambda>x y. f x = Inr y) xs ys"
  by (induction xs arbitrary: ys) (auto split: sum.splits)

lemma map_err_Inl: "map_err f xs = Inl e \<Longrightarrow> \<exists>x \<in> set xs. f x = Inl e"
  by (induction xs) (auto split: sum.splits)

lemma map_err_total: "(\<forall>x \<in> set xs. \<exists>y. f x = Inr y) \<Longrightarrow> \<exists>ys. map_err f xs = Inr ys"
  by (induction xs) (auto split: sum.splits)

lemma filter_zip_all2:
  "list_all2 (\<lambda>x y. f x = Inr y) xs bs \<Longrightarrow>
     map snd (filter fst (zip bs xs)) = filter (\<lambda>x. f x = Inr True) xs"
  by (induction xs bs rule: list_all2_induct) auto

lemma filter_err_Inr:
  "filter_err f xs = Inr ys \<Longrightarrow> ys = filter (\<lambda>x. f x = Inr True) xs"
  by (auto simp: filter_err_def split: sum.splits dest!: map_err_Inr filter_zip_all2)

lemma filter_err_defined:
  "filter_err f xs = Inr ys \<Longrightarrow> x \<in> set xs \<Longrightarrow> \<exists>b. f x = Inr b"
  by (auto simp: filter_err_def list_all2_conv_all_nth in_set_conv_nth split: sum.splits dest!: map_err_Inr)

lemma filter_err_total:
  "(\<forall>x \<in> set xs. \<exists>b. f x = Inr b) \<Longrightarrow> \<exists>ys. filter_err f xs = Inr ys"
  using map_err_total [of xs f] by (auto simp: filter_err_def)

lemma fold_funion_iff:
  "x |\<in>| fold (\<lambda>r acc. acc |\<union>| r) rs A \<longleftrightarrow> x |\<in>| A \<or> (\<exists>r \<in> set rs. x |\<in>| r)"
  by (induction rs arbitrary: A) auto

lemma candidate_bond_keys_iff:
  "b |\<in>| candidate_bond_keys c gra assigned \<longleftrightarrow>
     b |\<in>| rigid_planar_bond_keys c gra
     \<and> (assigned \<or> b |\<notin>| bond_stereo_keys gra)
     \<and> \<not> (\<exists>r \<in> set (rings_bond_keys c gra (Some False)). fcard r < 8 \<and> b |\<in>| r)"
  by (auto simp: candidate_bond_keys_def Let_def fold_funion_iff)

subsection \<open>Stereogenic bonds\<close>

lemma map_err_getitem:
  "map_err (getitem d) ks =
     (if set ks \<subseteq> fmdom' d then Inr (map (\<lambda>k. the (fmlookup d k)) ks) else Inl KeyError)"
  by (induction ks) (auto simp: getitem_def fmlookup_dom'_iff split: option.splits)

lemma bond_end_Inr_iff:
  "(\<exists>r. bond_end_is_stereogenic pri nkeys = Inr r) \<longleftrightarrow>
     length nkeys \<le> 2 \<and> set nkeys \<subseteq> fmdom' pri"
  by (auto simp: bond_end_is_stereogenic_def map_err_getitem split: sum.splits if_splits)

lemma bond_end_True_iff:
  "bond_end_is_stereogenic pri nkeys = Inr r \<Longrightarrow> r = end_distinguishes pri nkeys"
proof -
  assume a: "bond_end_is_stereogenic pri nkeys = Inr r"
  then have len: "length nkeys \<le> 2" and dom: "set nkeys \<subseteq> fmdom' pri"
    using bond_end_Inr_iff [of pri nkeys] by auto
  consider "nkeys = []" | n where "nkeys = [n]" | n1 n2 where "nkeys = [n1, n2]"
    using len by (cases nkeys rule: list.exhaust; cases "tl nkeys"; cases "tl (tl nkeys)") auto
  then show ?thesis
  proof cases
    case 1 with a show ?thesis by (auto simp: bond_end_is_stereogenic_def end_distinguishes_def)
  next
    case 2 with a show ?thesis
      by (auto simp: bond_end_is_stereogenic_def end_distinguishes_def getitem_def split: sum.splits option.splits)
  next
    case 3 with a dom show ?thesis
      by (auto simp: bond_end_is_stereogenic_def end_distinguishes_def getitem_def fmlookup_dom'_iff
          split: sum.splits option.splits if_splits)
  qed
qed


lemma bond_is_stereogenic_Inr:
  assumes "bond_stereo_sorted_neighbor_keys c gra (fst b) (snd b) pri = (n1s, n2s)"
      and "length n1s \<le> 2" "set n1s \<subseteq> fmdom' pri" "length n2s \<le> 2" "set n2s \<subseteq> fmdom' pri"
  shows "bond_is_stereogenic c gra pri b =
           Inr (end_distinguishes pri n1s \<and> end_distinguishes pri n2s)"
proof -
  obtain r1 where r1: "bond_end_is_stereogenic pri n1s = Inr r1"
    using bond_end_Inr_iff [of pri n1s] assms by auto
  obtain r2 where r2: "bond_end_is_stereogenic pri n2s = Inr r2"
    using bond_end_Inr_iff [of pri n2s] assms by auto
  show ?thesis
    using r1 r2 bond_end_True_iff [OF r1] bond_end_True_iff [OF r2] assms(1)
    by (simp add: bond_is_stereogenic_def)
qed

text \<open>
  Claim C9.  When the hydrogen priorities can be assigned and every end of a
  candidate bond has at most two substituents, each with a priority,
  \<open>stereogenic_bond_keys_from_priorities\<close> returns exactly the rigid, planar bonds
  that lie on no ring of fewer than 8 bonds (hence atoms), that carry no parity
  yet unless \<open>assigned\<close> is set, and whose two ends both satisfy the end
  condition of the specification: no substituent never, one substituent always,
  two substituents when their priorities differ.
\<close>

theorem stereogenic_bond_keys_from_priorities_exact:
  assumes hyd: "assign_hydrogen_priorities c (explicit c (without_pi_bonds c gra0)) pri_dct0
                  False False = Inr pri_dct"
      and ends: "\<forall>b. b |\<in>| candidate_bond_keys c (explicit c (without_pi_bonds c gra0)) assigned \<longrightarrow>
                  length (fst (bond_ends c (explicit c (without_pi_bonds c gra0)) pri_dct b)) \<le> 2
                \<and> length (snd (bond_ends c (explicit c (without_pi_bonds c gra0)) pri_dct b)) \<le> 2
                \<and> set (fst (bond_ends c (explicit c (without_pi_bonds c gra0)) pri_dct b)) \<subseteq> fmdom' pri_dct
                \<and> set (snd (bond_ends c (explicit c (without_pi_bonds c gra0)) pri_dct b)) \<subseteq> fmdom' pri_dct"
  shows "\<exists>ste_bnd_keys.
           stereogenic_bond_keys_from_priorities c gra0 pri_dct0 assigned = Inr ste_bnd_keys
         \<and> (\<forall>b. b |\<in>| ste_bnd_keys \<longleftrightarrow>
                b |\<in>| rigid_planar_bond_keys c (explicit c (without_pi_bonds c gra0))
              \<and> \<not> (\<exists>r \<in> set (rings_bond_keys c (explicit c (without_pi_bonds c gra0)) (Some False)).
                     fcard r < 8 \<and> b |\<in>| r)
              \<and> (assigned \<or> b |\<notin>| bond_stereo_keys (explicit c (without_pi_bonds c gra0)))
              \<and> end_distinguishes pri_dct
                   (fst (bond_ends c (explicit c (without_pi_bonds c gra0)) pri_dct b))
              \<and> end_distinguishes pri_dct
                   (snd (bond_ends c (explicit c (without_pi_bonds c gra0)) pri_dct b)))"
proof -
  define gra where "gra = explicit c (without_pi_bonds c gra0)"
  define cand where "cand = sorted_list_of_fset (candidate_bond_keys c gra assigned)"
  have cand_set: "set cand = fset (candidate_bond_keys c gra assigned)"
    by (simp add: cand_def)
  have test: "bond_is_stereogenic c gra pri_dct b =
      Inr (end_distinguishes pri_dct (fst (bond_ends c gra pri_dct b))
         \<and> end_distinguishes pri_dct (snd (bond_ends c gra pri_dct b)))"
    if "b \<in> set cand" for b
  proof -
    from that have "b |\<in>| candidate_bond_keys c gra assigned" by (simp add: cand_set)
    with ends have "length (fst (bond_ends c gra pri_dct b)) \<le> 2"
      "length (snd (bond_ends c gra pri_dct b)) \<le> 2"
      "set (fst (bond_ends c gra pri_dct b)) \<subseteq> fmdom' pri_dct"
      "set (snd (bond_ends c gra pri_dct b)) \<subseteq> fmdom' pri_dct"
      unfolding gra_def by blast+
    then show ?thesis
      by (intro bond_is_stereogenic_Inr) (simp_all add: bond_ends_def)
  qed
  then have "\<forall>b \<in> set cand. \<exists>r. bond_is_stereogenic c gra pri_dct b = Inr r" by blast
  from filter_err_total [OF this] obtain ks
    where ks: "filter_err (bond_is_stereogenic c gra pri_dct) cand = Inr ks" ..
  have ks_eq: "ks = filter (\<lambda>b. bond_is_stereogenic c gra pri_dct b = Inr True) cand"
    by (rule filter_err_Inr [OF ks])
  have res: "stereogenic_bond_keys_from_priorities c gra0 pri_dct0 assigned = Inr (fset_of_list ks)"
    using hyd ks by (simp add: stereogenic_bond_keys_from_priorities_def Let_def gra_def cand_def)
  have mem: "b |\<in>| fset_of_list ks \<longleftrightarrow>
       b |\<in>| candidate_bond_keys c gra assigned
     \<and> end_distinguishes pri_dct (fst (bond_ends c gra pri_dct b))
     \<and> end_distinguishes pri_dct (snd (bond_ends c gra pri_dct b))" for b
    using test [of b] by (auto simp: ks_eq fset_of_list.rep_eq cand_set)
  show ?thesis
    using res mem unfolding candidate_bond_keys_iff gra_def by blast
qed


theorem stereogenic_bond_keys_from_priorities_exact_witness:
  "assign_hydrogen_priorities mol_core (explicit mol_core (without_pi_bonds mol_core difluoroethene))
     difluoroethene_priorities False False = Inr difluoroethene_hydrogen_priorities
   \<and> (\<exists>ste_bnd_keys.
        stereogenic_bond_keys_from_priorities mol_core difluoroethene difluoroethene_priorities False
          = Inr ste_bnd_keys
      \<and> (0, 1) |\<in>| ste_bnd_keys \<and> (0, 2) |\<notin>| ste_bnd_keys)"
proof -
  let ?gra = "explicit mol_core (without_pi_bonds mol_core difluoroethene)"
  let ?pri = difluoroethene_hydrogen_priorities
  have hyd: "assign_hydrogen_priorities mol_core ?gra difluoroethene_priorities False False = Inr ?pri"
    by code_simp
  have cand: "candidate_bond_keys mol_core ?gra False = {|(0, 1)|}"
    by code_simp
  have e1: "bond_ends mol_core ?gra ?pri (0, 1) = ([2, 4], [3, 5])"
    by code_simp
  have dom: "fmdom' ?pri = {0, 1, 2, 3, 4, 5}"
    by code_simp
  have ends: "\<forall>b. b |\<in>| candidate_bond_keys mol_core ?gra False \<longrightarrow>
        length (fst (bond_ends mol_core ?gra ?pri b)) \<le> 2
      \<and> length (snd (bond_ends mol_core ?gra ?pri b)) \<le> 2
      \<and> set (fst (bond_ends mol_core ?gra ?pri b)) \<subseteq> fmdom' ?pri
      \<and> set (snd (bond_ends mol_core ?gra ?pri b)) \<subseteq> fmdom' ?pri"
    by (simp add: cand e1 dom)
  from stereogenic_bond_keys_from_priorities_exact [OF hyd ends]
  obtain S where S: "stereogenic_bond_keys_from_priorities mol_core difluoroethene
        difluoroethene_priorities False = Inr S"
    and mem: "\<And>b. b |\<in>| S \<longleftrightarrow>
        b |\<in>| rigid_planar_bond_keys mol_core ?gra
      \<and> \<not> (\<exists>r \<in> set (rings_bond_keys mol_core ?gra (Some False)). fcard r < 8 \<and> b |\<in>| r)
      \<and> (False \<or> b |\<notin>| bond_stereo_keys ?gra)
      \<and> end_distinguishes ?pri (fst (bond_ends mol_core ?gra ?pri b))
      \<and> end_distinguishes ?pri (snd (bond_ends mol_core ?gra ?pri b))"
    by blast
  have c1: "(0, 1) |\<in>| candidate_bond_keys mol_core ?gra False"
    and c2: "(0, 2) |\<notin>| candidate_bond_keys mol_core ?gra False"
    by (simp_all add: cand)
  have d1: "end_distinguishes ?pri (fst (bond_ends mol_core ?gra ?pri (0, 1)))"
    and d2: "end_distinguishes ?pri (snd (bond_ends mol_core ?gra ?pri (0, 1)))"
    by code_simp+
  have "(0, 1) |\<in>| S"
    using mem [of "(0, 1)"] c1 d1 d2 unfolding candidate_bond_keys_iff by blast
  moreover have "(0, 2) |\<notin>| S"
    using mem [of "(0, 2)"] c2 unfolding candidate_bond_keys_iff by blast
  ultimately show ?thesis using hyd S by blast
qed


subsection \<open>The errors of the driver and the consistency check\<close>

lemma icv_simps [simp]:
  "\<not> is_consistency_violation KeyError" "\<not> is_consistency_violation TypeError"
  "\<not> is_consistency_violation IndexError" "\<not> is_consistency_violation (AssertionError s)"
  "\<not> is_consistency_violation (PreconditionViolation s)"
  "is_consistency_violation (AtomParityMismatch x y)"
  "is_consistency_violation (BondParityMismatch u v)"
  by (simp_all add: is_consistency_violation_def)

lemma getitem_Inl: "getitem d k = Inl e \<Longrightarrow> e = KeyError"
  by (auto simp: getitem_def split: option.splits)

lemma sorted_by_Inl: "sorted_by f xs = Inl e \<Longrightarrow> \<exists>x \<in> set xs. f x = Inl e"
  by (auto simp: sorted_by_def split: sum.splits dest: map_err_Inl)

lemma ncv_replace: "replace_reacting_bond_order v = Inl e \<Longrightarrow> \<not> is_consistency_violation e"
  by (auto simp: replace_reacting_bond_order_def split: option.splits if_splits)

lemma ncv_transform_values_err:
  "transform_values_err d f = Inl e \<Longrightarrow> \<exists>v. f v = Inl e"
  by (auto simp: transform_values_err_def split: sum.splits dest!: map_err_Inl)

lemma ncv_sort_evaluator:
  "sort_evaluator_atom_invariants c gra = Inl e \<Longrightarrow> \<not> is_consistency_violation e"
  by (auto simp: sort_evaluator_atom_invariants_def Let_def split: sum.splits
      dest!: ncv_transform_values_err map_err_Inl ncv_replace)

lemma ncv_sort_value: "sort_value t pri k = Inl e \<Longrightarrow> \<not> is_consistency_violation e"
  by (auto simp: sort_value_def split: sum.splits dest!: getitem_Inl map_err_Inl)

lemma ncv_neighbor_idxs:
  "neighbor_idxs ngb pri cla q idxs acc = Inl e \<Longrightarrow> \<not> is_consistency_violation e"
  by (induction ngb pri cla q idxs acc rule: neighbor_idxs.induct)
    (auto split: sum.splits if_splits dest!: getitem_Inl map_err_Inl)

lemma ncv_enqueue: "enqueue cla idxs q = Inl e \<Longrightarrow> \<not> is_consistency_violation e"
  by (induction cla idxs q rule: enqueue.induct) (auto split: sum.splits dest!: getitem_Inl)

lemma ncv_refine_step:
  "refine_step t ngb idx cla st = Inl e \<Longrightarrow> \<not> is_consistency_violation e"
  by (auto simp: refine_step_def Let_def split: sum.splits prod.splits if_splits
      dest!: sorted_by_Inl ncv_sort_value ncv_neighbor_idxs ncv_enqueue)

lemma ncv_refine_loop_aux:
  assumes "refine_loop t ngb st = Some r"
  shows "\<forall>e. r = Inl e \<longrightarrow> \<not> is_consistency_violation e"
  by (rule refine_loop.raw_induct
        [OF _ assms, where P = "\<lambda>t ngb st r. \<forall>e. r = Inl e \<longrightarrow> \<not> is_consistency_violation e"])
     (auto split: prod.splits list.splits sum.splits dest!: ncv_refine_step)

lemma ncv_refine_loop:
  "refine_loop t ngb st = Some (Inl e) \<Longrightarrow> \<not> is_consistency_violation e"
  using ncv_refine_loop_aux by blast

lemma ncv_refine_priorities:
  "refine_priorities c gra p = Some (Inl e) \<Longrightarrow> \<not> is_consistency_violation e"
  by (auto simp: refine_priorities_def Let_def split: if_splits sum.splits
      dest!: ncv_sort_evaluator ncv_refine_loop)

lemma ncv_break_ties_loop_aux:
  assumes "break_ties_loop c gra p = Some r"
  shows "\<forall>e. r = Inl e \<longrightarrow> \<not> is_consistency_violation e"
  by (rule break_ties_loop.raw_induct
        [OF _ assms, where P = "\<lambda>c gra p r. \<forall>e. r = Inl e \<longrightarrow> \<not> is_consistency_violation e"])
     (auto split: list.splits sum.splits Option.bind_splits dest!: ncv_refine_priorities)

lemma ncv_break_ties_loop:
  "break_ties_loop c gra p = Some (Inl e) \<Longrightarrow> \<not> is_consistency_violation e"
  using ncv_break_ties_loop_aux by blast

lemma ncv_break_priority_ties:
  "break_priority_ties c gra p = Some (Inl e) \<Longrightarrow> \<not> is_consistency_violation e"
  by (auto simp: break_priority_ties_def split: if_splits dest!: ncv_break_ties_loop)

lemma ncv_by_key_int: "by_key_int d ks = Inl e \<Longrightarrow> \<not> is_consistency_violation e"
  by (auto simp: by_key_int_def split: if_splits)

lemma ncv_assign_hydrogen_priorities:
  "assign_hydrogen_priorities c gra p bt neg = Inl e \<Longrightarrow> \<not> is_consistency_violation e"
  by (auto simp: assign_hydrogen_priorities_def Let_def split: sum.splits if_splits prod.splits
      dest!: sorted_by_Inl getitem_Inl map_err_Inl ncv_by_key_int)


lemma filter_err_Inl: "filter_err f xs = Inl e \<Longrightarrow> \<exists>x \<in> set xs. f x = Inl e"
  by (auto simp: filter_err_def split: sum.splits dest: map_err_Inl)

lemma ncv_stereogenic_atom_keys:
  "stereogenic_atom_keys_from_priorities c gra p a = Inl e \<Longrightarrow> \<not> is_consistency_violation e"
  by (auto simp: stereogenic_atom_keys_from_priorities_def Let_def split: sum.splits if_splits
      dest!: filter_err_Inl ncv_assign_hydrogen_priorities map_err_Inl getitem_Inl)

lemma ncv_bond_end: "bond_end_is_stereogenic p ns = Inl e \<Longrightarrow> \<not> is_consistency_violation e"
  by (auto simp: bond_end_is_stereogenic_def split: sum.splits if_splits
      dest!: map_err_Inl getitem_Inl)

lemma ncv_bond_is_stereogenic:
  "bond_is_stereogenic c gra p b = Inl e \<Longrightarrow> \<not> is_consistency_violation e"
  by (auto simp: bond_is_stereogenic_def split: sum.splits prod.splits dest!: ncv_bond_end)

lemma ncv_stereogenic_bond_keys:
  "stereogenic_bond_keys_from_priorities c gra p a = Inl e \<Longrightarrow> \<not> is_consistency_violation e"
  by (auto simp: stereogenic_bond_keys_from_priorities_def Let_def split: sum.splits
      dest!: filter_err_Inl ncv_assign_hydrogen_priorities ncv_bond_is_stereogenic)

lemma ncv_stereogenic_keys:
  "stereogenic_keys_from_priorities c gra p a = Inl e \<Longrightarrow> \<not> is_consistency_violation e"
  by (auto simp: stereogenic_keys_from_priorities_def split: sum.splits
      dest!: ncv_stereogenic_atom_keys ncv_stereogenic_bond_keys)

lemma ncv_eval_parities:
  "eval_parities p keys = Inl e \<Longrightarrow> \<exists>k. p k = Inl e"
  by (auto simp: eval_parities_def split: sum.splits dest!: map_err_Inl)

lemma ncv_algo_body:
  assumes "par_eval_plain pe1" "par_eval_plain pe2"
      and "algo_body c pe1 pe2 gra0 gra1 gra2 p = Some (Inl e)"
  shows "\<not> is_consistency_violation e"
  using assms unfolding algo_body_def par_eval_plain_def
  by (auto split: Option.bind_splits sum.splits if_splits
      dest!: ncv_refine_priorities ncv_stereogenic_keys ncv_eval_parities)

lemma ncv_algo_loop_aux:
  assumes pl: "par_eval_plain pe1" "par_eval_plain pe2"
      and run: "algo_loop c pe1 pe2 gra0 gra1 gra2 p0 p1 = Some r"
  shows "\<forall>e. r = Inl e \<longrightarrow> \<not> is_consistency_violation e"
proof -
  have "par_eval_plain pe1 \<longrightarrow> par_eval_plain pe2 \<longrightarrow>
          (\<forall>e. r = Inl e \<longrightarrow> \<not> is_consistency_violation e)"
    by (rule algo_loop.raw_induct [OF _ run, where P = "\<lambda>c pe1 pe2 gra0 gra1 gra2 p0 p1 r.
          par_eval_plain pe1 \<longrightarrow> par_eval_plain pe2 \<longrightarrow>
          (\<forall>e. r = Inl e \<longrightarrow> \<not> is_consistency_violation e)"])
       (auto split: Option.bind_splits sum.splits if_splits prod.splits dest: ncv_algo_body)
  with pl show ?thesis by blast
qed

lemma ncv_algo:
  assumes "par_eval_plain pe1" "par_eval_plain pe2"
      and "algo c pe1 pe2 gra p ts_rev = Some (Inl e)"
  shows "\<not> is_consistency_violation e"
  using assms(3) ncv_algo_body [OF assms(1,2)] ncv_algo_loop_aux [OF assms(1,2)]
  unfolding algo_def Let_def
  by (auto split: Option.bind_splits sum.splits if_splits prod.splits)

lemma ncv_stereo_rep:
  "stereo_assignment_representation gra p = Inl e \<Longrightarrow> \<not> is_consistency_violation e"
  by (auto simp: stereo_assignment_representation_def Let_def split: sum.splits prod.splits
      dest!: sorted_by_Inl getitem_Inl map_err_Inl)

lemma ncv_ts_rep:
  "ts_direction_representation c gra p = Inl e \<Longrightarrow> \<not> is_consistency_violation e"
  by (auto simp: ts_direction_representation_def Let_def split: sum.splits prod.splits
      dest!: getitem_Inl map_err_Inl ncv_stereo_rep)

lemma ncv_ts_is_canonical:
  "ts_is_canonical_direciton c g1 p1 g2 p2 = Inl e \<Longrightarrow> \<not> is_consistency_violation e"
  by (auto simp: ts_is_canonical_direciton_def Let_def split: sum.splits
      dest!: ncv_by_key_int ncv_ts_rep)

lemma par_eval_plain_read_canonical: "par_eval_plain parity_evaluator_read_canonical"
  by (auto simp: par_eval_plain_def parity_evaluator_read_canonical_def Let_def
      split: ste_key.splits dest!: getitem_Inl)

lemma ncv_component:
  assumes "case pe of None \<Rightarrow> True | Some p \<Rightarrow> par_eval_plain p"
      and "case pe2 of None \<Rightarrow> True | Some p \<Rightarrow> par_eval_plain p"
      and "calculate_priorities_and_assign_stereo_component c gra pe pe2 bt bb p = Some (Inl e)"
  shows "\<not> is_consistency_violation e"
proof -
  define e1 where "e1 = (case pe of None \<Rightarrow> parity_evaluator_read_canonical | Some p \<Rightarrow> p)"
  define e2 where "e2 = (case pe2 of None \<Rightarrow> e1 | Some p \<Rightarrow> p)"
  have p1: "par_eval_plain e1"
    using assms(1) par_eval_plain_read_canonical by (auto simp: e1_def split: option.splits)
  have p2: "par_eval_plain e2"
    using assms(2) p1 by (auto simp: e2_def split: option.splits)
  show ?thesis
    using assms(3) ncv_algo [OF p1 p2]
    unfolding calculate_priorities_and_assign_stereo_component_def Let_def
      e1_def [symmetric] e2_def [symmetric]
    by (auto split: Option.bind_splits sum.splits if_splits prod.splits
        dest!: ncv_ts_is_canonical ncv_break_priority_ties ncv_assign_hydrogen_priorities)
qed

lemma ncv_components:
  assumes "case pe of None \<Rightarrow> True | Some p \<Rightarrow> par_eval_plain p"
      and "case pe2 of None \<Rightarrow> True | Some p \<Rightarrow> par_eval_plain p"
  shows "calculate_components c pe pe2 bt bb cs p g = Some (Inl e) \<Longrightarrow>
           \<not> is_consistency_violation e"
proof (induction cs arbitrary: p g)
  case Nil
  then show ?case by simp
next
  case (Cons a cs)
  obtain cgra cpri where a: "a = (cgra, cpri)" by (cases a)
  from Cons.prems show ?case
    unfolding a
    by (auto split: Option.bind_splits sum.splits prod.splits
        dest: ncv_component [OF assms] Cons.IH)
qed

lemma ncv_calculate:
  assumes "case pe of None \<Rightarrow> True | Some p \<Rightarrow> par_eval_plain p"
      and "case pe2 of None \<Rightarrow> True | Some p \<Rightarrow> par_eval_plain p"
      and "calculate_priorities_and_assign_stereo c gra pe pe2 bt bb p = Some (Inl e)"
  shows "\<not> is_consistency_violation e"
  using assms(3) ncv_components [OF assms(1,2)]
  unfolding calculate_priorities_and_assign_stereo_def Let_def
  by (auto split: sum.splits option.splits dest!: map_err_Inl ncv_by_key_int)


text \<open>
  Claim C8.  \<open>canonical_keys\<close> fails with a consistency violation exactly when
  the canonicalization returns a graph whose atom or bond stereo parities
  differ from those of the input; the failure carries the parities of the input
  and the recomputed ones, atoms first.  When the parities agree it returns
  the canonical keys.
\<close>

theorem canonical_keys_consistency:
  "((\<exists>e. canonical_keys c gra backbone_only = Some (Inl e) \<and> is_consistency_violation e) \<longleftrightarrow>
      (\<exists>keys gra'.
         calculate_priorities_and_assign_stereo c gra None None True backbone_only None
           = Some (Inr (keys, gra'))
       \<and> stereo_parities gra' \<noteq> stereo_parities gra))
   \<and> (\<forall>keys gra'.
         calculate_priorities_and_assign_stereo c gra None None True backbone_only None
           = Some (Inr (keys, gra')) \<longrightarrow>
         canonical_keys c gra backbone_only = Some (
           if atom_stereo_parities gra' \<noteq> atom_stereo_parities gra then
             Inl (AtomParityMismatch (atom_stereo_parities gra) (atom_stereo_parities gra'))
           else if bond_stereo_parities gra' \<noteq> bond_stereo_parities gra then
             Inl (BondParityMismatch (bond_stereo_parities gra) (bond_stereo_parities gra'))
           else Inr keys))"
proof -
  let ?calc = "calculate_priorities_and_assign_stereo c gra None None True backbone_only None"
  have ok: "canonical_keys c gra backbone_only = Some (
           if atom_stereo_parities gra' \<noteq> atom_stereo_parities gra then
             Inl (AtomParityMismatch (atom_stereo_parities gra) (atom_stereo_parities gra'))
           else if bond_stereo_parities gra' \<noteq> bond_stereo_parities gra then
             Inl (BondParityMismatch (bond_stereo_parities gra) (bond_stereo_parities gra'))
           else Inr keys)"
    if "?calc = Some (Inr (keys, gra'))" for keys gra'
    using that by (auto simp: canonical_keys_def Let_def)
  have fwd: "\<exists>keys gra'. ?calc = Some (Inr (keys, gra')) \<and> stereo_parities gra' \<noteq> stereo_parities gra"
    if e: "canonical_keys c gra backbone_only = Some (Inl e)" "is_consistency_violation e" for e
  proof (cases ?calc)
    case None
    with e show ?thesis by (simp add: canonical_keys_def Let_def)
  next
    case (Some r)
    show ?thesis
    proof (cases r)
      case (Inl e')
      with Some e have "e' = e" by (simp add: canonical_keys_def Let_def)
      moreover have "\<not> is_consistency_violation e'"
        using Some Inl by (intro ncv_calculate [of None None c gra True backbone_only None]) simp_all
      ultimately show ?thesis using e by simp
    next
      case (Inr kg)
      obtain keys gra' where kg: "kg = (keys, gra')" by (cases kg)
      from ok [of keys gra'] Some Inr kg e
      have "stereo_parities gra' \<noteq> stereo_parities gra"
        by (auto simp: stereo_parities_def split: if_splits)
      with Some Inr kg show ?thesis by blast
    qed
  qed
  have bwd: "\<exists>e. canonical_keys c gra backbone_only = Some (Inl e) \<and> is_consistency_violation e"
    if "?calc = Some (Inr (keys, gra'))" "stereo_parities gra' \<noteq> stereo_parities gra" for keys gra'
    using ok [OF that(1)] that(2) by (auto simp: stereo_parities_def)
  show ?thesis using ok fwd bwd by blast
qed


theorem canonical_keys_consistency_witness:
  "canonical_keys mol_core methanol_oc False = Some (Inr (fmap_of_list [(0, 1), (1, 0)]))
   \<and> canonical_keys mol_core methanol_with_parity False =
       Some (Inl (AtomParityMismatch (atom_stereo_parities methanol_with_parity)
                    (atom_stereo_parities methanol_oc)))"
proof -
  have c1: "calculate_priorities_and_assign_stereo mol_core methanol_oc None None True False None
              = Some (Inr (fmap_of_list [(0, 1), (1, 0)], methanol_oc))"
    by code_simp
  have c2: "calculate_priorities_and_assign_stereo mol_core methanol_with_parity None None True
              False None = Some (Inr (fmap_of_list [(0, 1), (1, 0)], methanol_oc))"
    by code_simp
  have ne: "atom_stereo_parities methanol_oc \<noteq> atom_stereo_parities methanol_with_parity"
    by code_simp
  have r1: "canonical_keys mol_core methanol_oc False = Some (Inr (fmap_of_list [(0, 1), (1, 0)]))"
    using canonical_keys_consistency [of mol_core methanol_oc False] c1 by simp
  have r2: "canonical_keys mol_core methanol_with_parity False =
       Some (Inl (AtomParityMismatch (atom_stereo_parities methanol_with_parity)
                    (atom_stereo_parities methanol_oc)))"
    using canonical_keys_consistency [of mol_core methanol_with_parity False] c2 ne by simp
  show ?thesis using r1 r2 by simp
qed


subsection \<open>The canonical enantiomer of a graph without atom stereo\<close>

text \<open>
  Claim C4, as stated, fails: for methanol written with the oxygen first,
  \<open>canonical_enantiomer_with_keys\<close> returns the input graph, which is not the
  canonical graph.
\<close>

theorem canonical_enantiomer_short_circuit_counterexample:
  "\<not> has_atom_stereo methanol_oc
   \<and> canonical_enantiomer_with_keys mol_core methanol_oc
       = Some (Inr (methanol_oc, fmap_of_list [(0, 1), (1, 0)], None))
   \<and> canonical mol_core methanol_oc = Some (Inr methanol_co)
   \<and> methanol_co \<noteq> methanol_oc"
  by code_simp

text \<open>
  Claim C4, amended.  For a graph without an assigned atom parity,
  \<open>canonical_enantiomer_with_keys\<close> returns the input graph itself, the
  canonical keys of \<open>canonical_keys\<close> with the hydrogens included, and the flag
  \<open>None\<close> (or the failure of \<open>canonical_keys\<close>); relabelling the returned graph
  by the returned keys is what \<open>canonical\<close> returns.
\<close>

theorem canonical_enantiomer_with_keys_short_circuit:
  "\<not> has_atom_stereo gra \<Longrightarrow>
     canonical_enantiomer_with_keys c gra
       = map_option (map_sum id (\<lambda>can_key_dct. (gra, can_key_dct, None))) (canonical_keys c gra False)
   \<and> canonical c gra
       = Option.bind (canonical_enantiomer_with_keys c gra) (\<lambda>r.
           Some (case r of Inl e \<Rightarrow> Inl e
                 | Inr (ce_gra, ce_can_key_dct, is_refl) \<Rightarrow> relabel ce_gra ce_can_key_dct))"
  by (cases "canonical_keys c gra False")
    (auto simp: canonical_enantiomer_with_keys_def canonical_def split: sum.splits)

theorem canonical_enantiomer_with_keys_short_circuit_witness:
  "\<not> has_atom_stereo methanol_oc
   \<and> canonical_enantiomer_with_keys mol_core methanol_oc
       = Some (Inr (methanol_oc, fmap_of_list [(0, 1), (1, 0)], None))
   \<and> relabel methanol_oc (fmap_of_list [(0, 1), (1, 0)]) = Inr methanol_co"
proof -
  have h: "\<not> has_atom_stereo methanol_oc" by code_simp
  have k: "canonical_keys mol_core methanol_oc False = Some (Inr (fmap_of_list [(0, 1), (1, 0)]))"
    by code_simp
  have r: "relabel methanol_oc (fmap_of_list [(0, 1), (1, 0)]) = Inr methanol_co" by code_simp
  from canonical_enantiomer_with_keys_short_circuit [OF h, of mol_core] k
  have "canonical_enantiomer_with_keys mol_core methanol_oc
       = Some (Inr (methanol_oc, fmap_of_list [(0, 1), (1, 0)], None))" by simp
  with h r show ?thesis by simp
qed


subsection \<open>Relabelling and canonical graphs\<close>

text \<open>
  Claim C1 fails on cuneane.  The refinement leaves its eight atoms in one
  class, since every atom has the same invariants and the same neighbour
  priorities, although they are not all equivalent by symmetry.  The tie
  breaker then promotes the atom with the greatest key, which is an atom of a
  three-membered ring in \<open>cuneane\<close> and an atom of no such ring after the keys 0
  and 7 are exchanged.  The two canonical graphs differ: atom 7 lies on the
  triangle 5, 6, 7 in the first and on no triangle in the second.
\<close>

theorem canonical_permutation_counterexample:
  "relabel cuneane cuneane_swap = Inr cuneane_relabelled
   \<and> canonical mol_core cuneane = Some (Inr canonical_cuneane)
   \<and> canonical mol_core cuneane_relabelled = Some (Inr canonical_cuneane_relabelled)
   \<and> canonical_cuneane \<noteq> canonical_cuneane_relabelled"
  by code_simp


subsection \<open>Local stereo\<close>

text \<open>
  Claim C2 fails on a graph with an unassigned stereocentre.  The flip-local
  evaluator computes \<open>not par\<close> where the neighbour orders differ by an odd
  permutation, and \<open>not None\<close> is \<open>True\<close>: the conversion to local stereo gives
  the open centre the parity \<open>True\<close>, and the conversion back gives it \<open>False\<close>.
\<close>

theorem local_stereo_round_trip_failure:
  "to_local_stereo mol_core (halo_ethane (Some True) None) None
     = Some (Inr (halo_ethane (Some False) (Some True)))
   \<and> from_local_stereo mol_core (halo_ethane (Some False) (Some True)) None
     = Some (Inr (halo_ethane (Some True) (Some False)))
   \<and> halo_ethane (Some True) (Some False) \<noteq> halo_ethane (Some True) None"
  by code_simp

subsection \<open>Stability of the canonical enantiomer\<close>


text \<open>With an unassigned stereocentre, the defect of the flip-local evaluator
  also makes the second application return another graph, reflected again.\<close>

lemma canonical_enantiomer_partial_assignment_unstable:
  "canonical_enantiomer mol_core (halo_ethane (Some True) None)
     = Some (Inr (halo_ethane (Some False) (Some True), Some True))
   \<and> canonical_enantiomer mol_core (halo_ethane (Some False) (Some True))
     = Some (Inr (halo_ethane (Some True) (Some False), Some True))"
  by code_simp




end
